theory Spec2Isabelle
  imports Main "HOL-Library.Word"
begin

section \<open>The workflow execution context cache (package execution)\<close>

text \<open>
  A shallow embedding of the cache facade of the history service: the functions
  \<^verbatim>\<open>NewCache\<close>, \<^verbatim>\<open>GetOrCreateCurrentWorkflowExecution\<close>,
  \<^verbatim>\<open>GetAndCreateWorkflowExecution\<close>, \<^verbatim>\<open>GetOrCreateWorkflowExecution\<close>,
  \<^verbatim>\<open>getOrCreateWorkflowExecutionInternal\<close>, \<^verbatim>\<open>validateWorkflowExecutionInfo\<close>,
  \<^verbatim>\<open>makeReleaseFunc\<close> and \<^verbatim>\<open>getCurrentExecutionWithRetry\<close>.
  The Go code mutates the cache, the Contexts and the metrics client; the model passes
  one state record through every function and appends every call on a collaborator to a
  trace, in the order the code makes them. Go's multiple return values are tuples, with
  \<open>None\<close> for \<^verbatim>\<open>nil\<close>.
\<close>

subsection \<open>Data\<close>

text \<open>\<^verbatim>\<open>types.WorkflowExecution\<close> and \<^verbatim>\<open>definition.WorkflowIdentifier\<close>.\<close>

record WorkflowExecution =
  WorkflowID :: string
  RunID :: string

record WorkflowIdentifier =
  key_DomainID :: string
  key_WorkflowID :: string
  key_RunID :: string

definition NewWorkflowIdentifier :: "string \<Rightarrow> string \<Rightarrow> string \<Rightarrow> WorkflowIdentifier" where
  "NewWorkflowIdentifier domainID workflowID runID =
     \<lparr>key_DomainID = domainID, key_WorkflowID = workflowID, key_RunID = runID\<rparr>"

text \<open>
  Errors. \<open>BadRequestError\<close> is \<^verbatim>\<open>types.BadRequestError\<close> with its message; the other
  constructors are the error kinds of the collaborators (storage, cancellation of the
  caller's scope, a full map).
\<close>

datatype error =
  BadRequestError string
| TransientStorage string
| PermanentStorage string
| Cancelled
| DeadlineExceeded
| CapacityExhausted

text \<open>The metric scopes and metric names the file uses; any other caller scope is \<open>OtherScope\<close>.\<close>

datatype scope =
  HistoryCacheGetOrCreateCurrentScope
| HistoryCacheGetAndCreateScope
| HistoryCacheGetOrCreateScope
| HistoryCacheGetCurrentExecutionScope
| TimerActiveTaskDeleteHistoryEventScope
| HistoryRespondDecisionTaskCompletedScope
| PersistenceUpdateWorkflowExecutionScope
| TimerActiveTaskActivityTimeoutScope
| OtherScope nat

datatype metric =
  CacheRequests
| CacheLatency
| CacheFailures
| CacheMissCounter
| AcquireLockFailedCounter
| LockWaitLatency
| LockHoldLatency

text \<open>
  \<^verbatim>\<open>context.Context\<close>: \<^verbatim>\<open>context.Background()\<close>, which never ends; a scope with a deadline (what
  \<^verbatim>\<open>context.WithTimeout\<close> builds), which ends at that time with \<^verbatim>\<open>DeadlineExceeded\<close>; and a
  scope the caller cancels at a time, which ends then with \<^verbatim>\<open>Canceled\<close>. Times are in
  milliseconds on the clock of the state.
\<close>

datatype go_context = Background | WithDeadline nat | WithCancel nat

text \<open>When a scope ends, and what \<^verbatim>\<open>ctx.Err()\<close> is from then on.\<close>

fun ctx_end :: "go_context \<Rightarrow> (nat \<times> error) option" where
  "ctx_end Background = None"
| "ctx_end (WithDeadline t) = Some (t, DeadlineExceeded)"
| "ctx_end (WithCancel t) = Some (t, Cancelled)"

text \<open>
  A Context (the cached value) is a reference: its address in the heap of constructed
  Contexts. A panic value is a string.
\<close>

type_synonym ctx_ref = nat
type_synonym fault = string

text \<open>What \<^verbatim>\<open>NewContext(domainID, execution, ...)\<close> binds a Context to.\<close>

record ContextObj =
  ctx_domainID :: string
  ctx_execution :: WorkflowExecution

text \<open>
  Every call the facade makes on a collaborator, in order. Times are in milliseconds.
  \<open>LockEv\<close> carries what \<^verbatim>\<open>Lock(ctx)\<close> returned.
\<close>

datatype event =
  IncCounter scope metric
| StartTimer scope metric
| StopTimer scope metric
| ScopeStartTimer scope string metric
| ScopeStopTimer scope string metric
| RecordTimer scope string metric nat
| NewContextEv ctx_ref string WorkflowExecution
| LockEv ctx_ref "error option"
| UnlockEv ctx_ref
| ClearEv ctx_ref
| GetEv WorkflowIdentifier
| PutIfNotExistEv WorkflowIdentifier ctx_ref
| ReleaseEv WorkflowIdentifier
| GetCurrentExecutionEv string string
| SleepEv nat

subsection \<open>The LRU map with TTL and pinning (\<^verbatim>\<open>cache.Cache\<close>)\<close>

text \<open>
  Modelled from the spec: the package \<^verbatim>\<open>common/cache\<close> is not among the source files. An
  Entry is a "pair of (Key, Context) stored in the map, carrying a pin count (number of
  outstanding references granted to callers) and an insertion timestamp used for TTL";
  the map is "a mapping from Key to Entry with configurable initialCapacity, maxCount,
  and ttl" (the initial capacity is a hint without effect); an Entry is expired when its
  "age exceeds TTL".
\<close>

record Entry =
  entry_value :: ctx_ref
  pinCount :: nat
  insertedAt :: nat

text \<open>The entries are kept most recently used first.\<close>

record lru =
  entries :: "(WorkflowIdentifier \<times> Entry) list"
  maxCount :: nat
  ttl :: nat

definition remove_key :: "WorkflowIdentifier \<Rightarrow> (WorkflowIdentifier \<times> Entry) list \<Rightarrow> (WorkflowIdentifier \<times> Entry) list" where
  "remove_key k xs = filter (\<lambda>p. fst p \<noteq> k) xs"

definition touch :: "WorkflowIdentifier \<Rightarrow> Entry \<Rightarrow> (WorkflowIdentifier \<times> Entry) list \<Rightarrow> (WorkflowIdentifier \<times> Entry) list" where
  "touch k e xs = (k, e) # remove_key k xs"

definition expired :: "lru \<Rightarrow> nat \<Rightarrow> Entry \<Rightarrow> bool" where
  "expired m now e = (ttl m < now - insertedAt e)"

text \<open>
  Modelled from the spec: \<^verbatim>\<open>cache.Cache.Get\<close> is not among the source files. "If present
  and not TTL-expired, increments the pin count and returns the Entry; otherwise returns
  absent. TTL-expired entries with pin count 0 are removed on encounter; TTL-expired
  entries still pinned remain live until unpinned (they are not returned as hits)."
  A hit touches the entry.
\<close>

definition lru_Get :: "WorkflowIdentifier \<Rightarrow> nat \<Rightarrow> lru \<Rightarrow> ctx_ref option \<times> lru" where
  "lru_Get k now m =
     (case map_of (entries m) k of
        None \<Rightarrow> (None, m)
      | Some e \<Rightarrow>
          if expired m now e then
            (if pinCount e = 0 then (None, m\<lparr>entries := remove_key k (entries m)\<rparr>)
             else (None, m))
          else (Some (entry_value e),
                m\<lparr>entries := touch k (e\<lparr>pinCount := pinCount e + 1\<rparr>) (entries m)\<rparr>))"

text \<open>The least recently used entry that no caller holds.\<close>

definition lru_victim :: "(WorkflowIdentifier \<times> Entry) list \<Rightarrow> WorkflowIdentifier option" where
  "lru_victim xs =
     (case find (\<lambda>p. pinCount (snd p) = 0) (rev xs) of
        None \<Rightarrow> None
      | Some p \<Rightarrow> Some (fst p))"

text \<open>
  Modelled from the spec: \<^verbatim>\<open>cache.Cache.PutIfNotExist\<close> is not among the source files.
  "Atomically inserts (k, v) if no Entry exists for k, or returns the existing Entry. In
  both cases the returned Entry is pinned on behalf of the caller (pin count +1). The map
  may fail with a capacity-exhausted error if inserting would exceed maxCount and no
  unpinned entry is available to evict." Eviction takes the least recently used
  unpinned entry.
\<close>

definition lru_PutIfNotExist :: "WorkflowIdentifier \<Rightarrow> ctx_ref \<Rightarrow> nat \<Rightarrow> lru \<Rightarrow> (error + ctx_ref) \<times> lru" where
  "lru_PutIfNotExist k v now m =
     (case map_of (entries m) k of
        Some e \<Rightarrow>
          (Inr (entry_value e),
           m\<lparr>entries := touch k (e\<lparr>pinCount := pinCount e + 1\<rparr>) (entries m)\<rparr>)
      | None \<Rightarrow>
          let fresh = \<lparr>entry_value = v, pinCount = 1, insertedAt = now\<rparr> in
          if length (entries m) < maxCount m then
            (Inr v, m\<lparr>entries := (k, fresh) # entries m\<rparr>)
          else
            (case lru_victim (entries m) of
               None \<Rightarrow> (Inl CapacityExhausted, m)
             | Some old \<Rightarrow> (Inr v, m\<lparr>entries := (k, fresh) # remove_key old (entries m)\<rparr>)))"

text \<open>
  Modelled from the spec: \<^verbatim>\<open>cache.Cache.Release\<close> is not among the source files.
  "Decrements the pin count of the Entry for k (if any). When the pin count reaches 0 and
  the Entry is TTL-expired or the map is over capacity, the Entry is removed." Pin counts
  never go negative.
\<close>

definition lru_Release :: "WorkflowIdentifier \<Rightarrow> nat \<Rightarrow> lru \<Rightarrow> lru" where
  "lru_Release k now m =
     (case map_of (entries m) k of
        None \<Rightarrow> m
      | Some e \<Rightarrow>
          let n = (if pinCount e = 0 then 0 else pinCount e - 1) in
          if n = 0 \<and> (expired m now e \<or> maxCount m < length (entries m)) then
            m\<lparr>entries := remove_key k (entries m)\<rparr>
          else
            m\<lparr>entries := map (\<lambda>p. if fst p = k then (k, e\<lparr>pinCount := n\<rparr>) else p) (entries m)\<rparr>)"

text \<open>The pin count of a key: that of its entry, and 0 when the map has none.\<close>

definition pin_count :: "lru \<Rightarrow> WorkflowIdentifier \<Rightarrow> nat" where
  "pin_count m k = (case map_of (entries m) k of None \<Rightarrow> 0 | Some e \<Rightarrow> pinCount e)"

definition keys_of :: "lru \<Rightarrow> WorkflowIdentifier list" where
  "keys_of m = map fst (entries m)"

definition values_of :: "lru \<Rightarrow> ctx_ref list" where
  "values_of m = map (\<lambda>p. entry_value (snd p)) (entries m)"

subsection \<open>The state of the shard and its collaborators\<close>

text \<open>
  The \<^verbatim>\<open>Cache\<close> struct (its embedded \<^verbatim>\<open>cache.Cache\<close> and the \<^verbatim>\<open>disabled\<close> flag) together
  with what its methods reach: the clock, the heap of constructed Contexts, the
  \<^verbatim>\<open>status\<close> variable of every release closure (an \<^verbatim>\<open>int32\<close> behind an address) and the
  trace of calls.
\<close>

record state =
  lruCache :: lru
  disabled :: bool
  clock :: nat
  contexts :: "ContextObj list"
  statuses :: "nat \<Rightarrow> 32 word"
  next_status :: nat
  trace :: "event list"

text \<open>
  What the collaborators answer during one call of the facade. None of them is among the
  source files, so the facade is modelled for every behaviour of theirs:
  \<^verbatim>\<open>uuid.Parse\<close> (\<open>None\<close> is \<^verbatim>\<open>nil\<close>), the storage call \<^verbatim>\<open>GetCurrentExecution\<close> (its answer to
  the i-th attempt: an error or the response's \<^verbatim>\<open>RunID\<close>), the retry policy (how many
  retries, and the backoff before each), \<^verbatim>\<open>GetDomainName\<close>, and \<^verbatim>\<open>Context.Lock(ctx)\<close>
  (what it returns and how long it waited).
\<close>

record env =
  uuid_Parse :: "string \<Rightarrow> string option"
  GetCurrentExecution :: "go_context \<Rightarrow> nat \<Rightarrow> string \<Rightarrow> string \<Rightarrow> error + string"
  retry_maxRetries :: nat
  retry_backoff :: "nat \<Rightarrow> nat"
  GetDomainName :: "string \<Rightarrow> error + string"
  Context_Lock :: "go_context \<Rightarrow> error option \<times> nat"

record Config =
  HistoryCacheInitialSize :: nat
  HistoryCacheTTL :: nat
  HistoryCacheMaxSize :: nat

definition cacheNotReleased :: "32 word" where
  "cacheNotReleased = 0"

definition cacheReleased :: "32 word" where
  "cacheReleased = 1"

text \<open>
  \<^verbatim>\<open>NewCache\<close>: an empty pinning map with the sizes of the configuration, at time 0; the
  flag \<^verbatim>\<open>disabled\<close> keeps its zero value.
\<close>

definition NewCache :: "Config \<Rightarrow> state" where
  "NewCache config =
     \<lparr>lruCache = \<lparr>entries = [], maxCount = HistoryCacheMaxSize config, ttl = HistoryCacheTTL config\<rparr>,
      disabled = False,
      clock = 0,
      contexts = [],
      statuses = (\<lambda>_. 0),
      next_status = 0,
      trace = []\<rparr>"

definition emit :: "event \<Rightarrow> state \<Rightarrow> state" where
  "emit e s = s\<lparr>trace := trace s @ [e]\<rparr>"

definition sleep :: "nat \<Rightarrow> state \<Rightarrow> state" where
  "sleep d s = emit (SleepEv d) (s\<lparr>clock := clock s + d\<rparr>)"

definition NewContext :: "string \<Rightarrow> WorkflowExecution \<Rightarrow> state \<Rightarrow> ctx_ref \<times> state" where
  "NewContext domainID execution s =
     (let r = length (contexts s) in
      (r, emit (NewContextEv r domainID execution)
            (s\<lparr>contexts := contexts s @ [\<lparr>ctx_domainID = domainID, ctx_execution = execution\<rparr>]\<rparr>)))"

text \<open>The three map operations as the facade calls them, at the current time.\<close>

definition cache_Get :: "WorkflowIdentifier \<Rightarrow> state \<Rightarrow> ctx_ref option \<times> state" where
  "cache_Get key s =
     (let r = lru_Get key (clock s) (lruCache s) in
      (fst r, emit (GetEv key) (s\<lparr>lruCache := snd r\<rparr>)))"

definition cache_PutIfNotExist :: "WorkflowIdentifier \<Rightarrow> ctx_ref \<Rightarrow> state \<Rightarrow> (error + ctx_ref) \<times> state" where
  "cache_PutIfNotExist key v s =
     (let r = lru_PutIfNotExist key v (clock s) (lruCache s) in
      (fst r, emit (PutIfNotExistEv key v) (s\<lparr>lruCache := snd r\<rparr>)))"

definition cache_Release :: "WorkflowIdentifier \<Rightarrow> state \<Rightarrow> state" where
  "cache_Release key s =
     emit (ReleaseEv key) (s\<lparr>lruCache := lru_Release key (clock s) (lruCache s)\<rparr>)"

text \<open>\<^verbatim>\<open>Context.Lock(ctx)\<close>: the wait passes, and the call returns what the collaborator says.\<close>

definition Lock :: "env \<Rightarrow> go_context \<Rightarrow> ctx_ref \<Rightarrow> state \<Rightarrow> error option \<times> state" where
  "Lock ev ctx c s =
     (let r = Context_Lock ev ctx in
      (fst r, emit (LockEv c (fst r)) (s\<lparr>clock := clock s + snd r\<rparr>)))"

subsection \<open>The resolver\<close>

text \<open>Modelled from the spec: \<^verbatim>\<open>persistence.IsTransientError\<close> is not among the source files.\<close>

definition IsTransientError :: "error \<Rightarrow> bool" where
  "IsTransientError e = (case e of TransientStorage _ \<Rightarrow> True | _ \<Rightarrow> False)"

text \<open>
  Waiting \<open>d\<close> milliseconds under a scope, as the retry executor does between attempts: the
  wait ends early, with the scope's error, when the scope ends before it is over.
\<close>

definition wait :: "go_context \<Rightarrow> nat \<Rightarrow> state \<Rightarrow> error option \<times> state" where
  "wait ctx d s =
     (case ctx_end ctx of
        None \<Rightarrow> (None, sleep d s)
      | Some (t, err) \<Rightarrow>
          if t \<le> clock s + d then (Some err, sleep (t - clock s) s) else (None, sleep d s))"

text \<open>
  Modelled from the spec: \<^verbatim>\<open>backoff.ThrottleRetry.Do\<close> is not among the source files. It
  "wraps a parameterless fallible operation with a retry policy: bounded attempts,
  exponential backoff with jitter, retry only on errors flagged by a predicate.
  Cancellation of the surrounding scope aborts further attempts promptly." The operation
  is the closure \<^verbatim>\<open>op\<close> of \<^verbatim>\<open>getCurrentExecutionWithRetry\<close>; \<open>n\<close> is the number of retries
  left and \<open>i\<close> the attempt. After a transient error the executor waits the backoff of
  the policy under the caller's scope; if the scope ends during the wait it makes no
  further attempt and returns the scope's error (the spec's error kind "Cancelled:
  caller's cancellation fired during resolution").
\<close>

fun throttleRetry_Do :: "env \<Rightarrow> go_context \<Rightarrow> string \<Rightarrow> string \<Rightarrow> nat \<Rightarrow> nat \<Rightarrow> state \<Rightarrow> (error + string) \<times> state" where
  "throttleRetry_Do ev ctx domainID workflowID 0 i s =
     (GetCurrentExecution ev ctx i domainID workflowID,
      emit (GetCurrentExecutionEv domainID workflowID) s)"
| "throttleRetry_Do ev ctx domainID workflowID (Suc n) i s =
     (let s1 = emit (GetCurrentExecutionEv domainID workflowID) s in
      case GetCurrentExecution ev ctx i domainID workflowID of
        Inr response \<Rightarrow> (Inr response, s1)
      | Inl err \<Rightarrow>
          if IsTransientError err
          then (case wait ctx (retry_backoff ev i) s1 of
                  (Some cancelled, s2) \<Rightarrow> (Inl cancelled, s2)
                | (None, s2) \<Rightarrow> throttleRetry_Do ev ctx domainID workflowID n (Suc i) s2)
          else (Inl err, s1))"

definition getCurrentExecutionWithRetry :: "env \<Rightarrow> go_context \<Rightarrow> string \<Rightarrow> string \<Rightarrow> state \<Rightarrow> (error + string) \<times> state" where
  "getCurrentExecutionWithRetry ev ctx domainID workflowID s =
     (let s1 = emit (IncCounter HistoryCacheGetCurrentExecutionScope CacheRequests) s;
          s2 = emit (StartTimer HistoryCacheGetCurrentExecutionScope CacheLatency) s1;
          r = throttleRetry_Do ev ctx domainID workflowID (retry_maxRetries ev) 0 s2
      in case fst r of
           Inl err \<Rightarrow>
             (Inl err,
              emit (StopTimer HistoryCacheGetCurrentExecutionScope CacheLatency)
                (emit (IncCounter HistoryCacheGetCurrentExecutionScope CacheFailures) (snd r)))
         | Inr response \<Rightarrow>
             (Inr response,
              emit (StopTimer HistoryCacheGetCurrentExecutionScope CacheLatency) (snd r)))"

text \<open>
  \<^verbatim>\<open>validateWorkflowExecutionInfo\<close> writes the resolved run id through its pointer
  argument: the model returns the execution as it is after the call.
\<close>

definition validateWorkflowExecutionInfo :: "env \<Rightarrow> go_context \<Rightarrow> string \<Rightarrow> WorkflowExecution \<Rightarrow> state \<Rightarrow> (error option \<times> WorkflowExecution) \<times> state" where
  "validateWorkflowExecutionInfo ev ctx domainID execution s =
     (if WorkflowID execution = [] then
        ((Some (BadRequestError (''Can'' @ [CHR 0x27] @ ''t load workflow execution.  WorkflowId not set.'')), execution), s)
      else if RunID execution = [] then
        (case getCurrentExecutionWithRetry ev ctx domainID (WorkflowID execution) s of
           (Inl err, s1) \<Rightarrow> ((Some err, execution), s1)
         | (Inr response, s1) \<Rightarrow> ((None, execution\<lparr>RunID := response\<rparr>), s1))
      else if uuid_Parse ev (RunID execution) = None then
        ((Some (BadRequestError ''RunID is not valid UUID.''), execution), s)
      else ((None, execution), s))"

subsection \<open>The release handle\<close>

text \<open>
  \<^verbatim>\<open>ReleaseFunc\<close>: either \<^verbatim>\<open>NoopReleaseFn\<close> or a closure of \<^verbatim>\<open>makeReleaseFunc\<close> with the
  variables it captures; \<open>rf_status\<close> is the address of its \<^verbatim>\<open>status\<close>.
\<close>

datatype ReleaseFunc =
  NoopReleaseFn
| ReleaseClosure (rf_key: WorkflowIdentifier) (rf_context: ctx_ref) (rf_forceClearContext: bool)
    (rf_callerScope: scope) (rf_domainName: string) (rf_start: nat) (rf_status: nat)

definition makeReleaseFunc :: "WorkflowIdentifier \<Rightarrow> ctx_ref \<Rightarrow> bool \<Rightarrow> scope \<Rightarrow> string \<Rightarrow> state \<Rightarrow> ReleaseFunc \<times> state" where
  "makeReleaseFunc key context forceClearContext callerScope domainName s =
     (let a = next_status s in
      (ReleaseClosure key context forceClearContext callerScope domainName (clock s) a,
       s\<lparr>statuses := (statuses s)(a := cacheNotReleased), next_status := Suc a\<rparr>))"

text \<open>
  The \<^verbatim>\<open>time.Sleep\<close> of the release closure for the domain \<^verbatim>\<open>cadence-canary\<close>, branch by
  branch: the duration slept, or \<open>None\<close> in a branch that does not sleep.
\<close>

definition canary_delay :: "string \<Rightarrow> scope \<Rightarrow> nat option" where
  "canary_delay domainName callerScope =
     (if domainName = ''cadence-canary'' then
        (if callerScope = TimerActiveTaskDeleteHistoryEventScope then None
         else if callerScope = HistoryCacheGetOrCreateCurrentScope then None
         else if callerScope = HistoryRespondDecisionTaskCompletedScope then Some 18
         else if callerScope = PersistenceUpdateWorkflowExecutionScope then Some 14
         else if callerScope = TimerActiveTaskActivityTimeoutScope then Some 5
         else None)
      else None)"

definition canary_sleep :: "string \<Rightarrow> scope \<Rightarrow> state \<Rightarrow> state" where
  "canary_sleep domainName callerScope s =
     (case canary_delay domainName callerScope of None \<Rightarrow> s | Some d \<Rightarrow> sleep d s)"

text \<open>
  \<^verbatim>\<open>recover()\<close> as the release closure calls it. The body of the closure is one
  \<^verbatim>\<open>defer\<close> statement, so \<^verbatim>\<open>recover()\<close> is called by a function that the closure itself
  defers and that runs when the closure returns. Go hands the value of a panic only to a
  deferred function that the unwinding of the panicking function runs; a panic in flight
  in the caller of the handle (raised in the locked region) is not one of this call, and
  \<^verbatim>\<open>recover()\<close> returns \<^verbatim>\<open>nil\<close>.
\<close>

definition recover :: "fault option \<Rightarrow> fault option" where
  "recover panicking = None"

text \<open>
  Calling a release handle with \<^verbatim>\<open>err\<close> while the panic \<open>panicking\<close> is in flight in the
  caller (\<open>None\<close>: the caller is not panicking). The result is the panic in flight when
  the call is over: the one \<^verbatim>\<open>panic(rec)\<close> raises, or else the caller's, which nothing has
  recovered.
\<close>

fun call_ReleaseFunc :: "ReleaseFunc \<Rightarrow> error option \<Rightarrow> fault option \<Rightarrow> state \<Rightarrow> fault option \<times> state" where
  "call_ReleaseFunc NoopReleaseFn err panicking s = (panicking, s)"
| "call_ReleaseFunc (ReleaseClosure key context forceClearContext callerScope domainName start a) err panicking s =
     (if statuses s a = cacheNotReleased then
        (let s1 = s\<lparr>statuses := (statuses s)(a := cacheReleased)\<rparr> in
         case recover panicking of
           Some rec \<Rightarrow>
             (let s2 = emit (ClearEv context) s1;
                  s3 = emit (UnlockEv context) s2;
                  s4 = emit (RecordTimer callerScope domainName LockHoldLatency (clock s3 - start)) s3;
                  s5 = cache_Release key s4
              in (Some rec, s5))
         | None \<Rightarrow>
             (let s2 = (if err \<noteq> None \<or> forceClearContext then emit (ClearEv context) s1 else s1);
                  s3 = canary_sleep domainName callerScope s2;
                  s4 = emit (UnlockEv context) s3;
                  s5 = emit (RecordTimer callerScope domainName LockHoldLatency (clock s4 - start)) s4;
                  s6 = cache_Release key s5
              in (panicking, s6)))
      else (panicking, s))"

subsection \<open>The facade\<close>

type_synonym acquisition = "ctx_ref option \<times> ReleaseFunc option \<times> error option"

definition getOrCreateWorkflowExecutionInternal ::
  "env \<Rightarrow> go_context \<Rightarrow> string \<Rightarrow> WorkflowExecution \<Rightarrow> scope \<Rightarrow> bool \<Rightarrow> scope \<Rightarrow> state \<Rightarrow> acquisition \<times> state" where
  "getOrCreateWorkflowExecutionInternal ev ctx domainID execution scp forceClearContext callerScope s =
     (if disabled s then
        (case NewContext domainID execution s of
           (c, s1) \<Rightarrow> ((Some c, Some NoopReleaseFn, None), s1))
      else
        (let key = NewWorkflowIdentifier domainID (WorkflowID execution) (RunID execution) in
        case cache_Get key s of (hit, s1) \<Rightarrow>
        (case (case hit of
                 Some c \<Rightarrow> (Inr c, s1)
               | None \<Rightarrow>
                   (case NewContext domainID execution (emit (IncCounter scp CacheMissCounter) s1) of
                      (c, s2) \<Rightarrow> cache_PutIfNotExist key c s2)) of
           (Inl err, s3) \<Rightarrow> ((None, None, Some err), emit (IncCounter scp CacheFailures) s3)
         | (Inr workflowCtx, s3) \<Rightarrow>
             (let domainName = (case GetDomainName ev domainID of Inl _ \<Rightarrow> [] | Inr n \<Rightarrow> n);
                  s4 = emit (ScopeStartTimer callerScope domainName LockWaitLatency) s3
              in case Lock ev ctx workflowCtx s4 of
                  (Some err, s5) \<Rightarrow>
                    ((None, None, Some err),
                     emit (ScopeStopTimer callerScope domainName LockWaitLatency)
                       (emit (IncCounter scp AcquireLockFailedCounter)
                         (emit (IncCounter scp CacheFailures) (cache_Release key s5))))
                | (None, s5) \<Rightarrow>
                    (case makeReleaseFunc key workflowCtx forceClearContext callerScope domainName s5 of
                       (releaseFunc, s6) \<Rightarrow>
                         ((Some workflowCtx, Some releaseFunc, None),
                          emit (ScopeStopTimer callerScope domainName LockWaitLatency) s6))))))"

definition GetOrCreateCurrentWorkflowExecution ::
  "env \<Rightarrow> go_context \<Rightarrow> string \<Rightarrow> string \<Rightarrow> state \<Rightarrow> acquisition \<times> state" where
  "GetOrCreateCurrentWorkflowExecution ev ctx domainID workflowID s =
     (let scp = HistoryCacheGetOrCreateCurrentScope;
          s1 = emit (StartTimer scp CacheLatency) (emit (IncCounter scp CacheRequests) s);
          runID = [];
          execution = \<lparr>WorkflowID = workflowID, RunID = runID\<rparr>
      in case getOrCreateWorkflowExecutionInternal ev ctx domainID execution scp True scp s1 of
           (res, s2) \<Rightarrow> (res, emit (StopTimer scp CacheLatency) s2))"

definition GetOrCreateWorkflowExecution ::
  "env \<Rightarrow> go_context \<Rightarrow> string \<Rightarrow> WorkflowExecution \<Rightarrow> scope \<Rightarrow> state \<Rightarrow> acquisition \<times> state" where
  "GetOrCreateWorkflowExecution ev ctx domainID execution callerScope s =
     (let scp = HistoryCacheGetOrCreateScope;
          s1 = emit (StartTimer scp CacheLatency) (emit (IncCounter scp CacheRequests) s)
      in case validateWorkflowExecutionInfo ev ctx domainID execution s1 of
           ((Some err, _), s2) \<Rightarrow>
             ((None, None, Some err),
              emit (StopTimer scp CacheLatency) (emit (IncCounter scp CacheFailures) s2))
         | ((None, execution1), s2) \<Rightarrow>
             (case getOrCreateWorkflowExecutionInternal ev ctx domainID execution1 scp False callerScope s2 of
                (res, s3) \<Rightarrow> (res, emit (StopTimer scp CacheLatency) s3)))"

definition GetOrCreateWorkflowExecutionForBackground ::
  "env \<Rightarrow> string \<Rightarrow> WorkflowExecution \<Rightarrow> state \<Rightarrow> acquisition \<times> state" where
  "GetOrCreateWorkflowExecutionForBackground ev domainID execution s =
     GetOrCreateWorkflowExecution ev Background domainID execution HistoryCacheGetOrCreateScope s"

definition GetOrCreateWorkflowExecutionWithTimeout ::
  "env \<Rightarrow> string \<Rightarrow> WorkflowExecution \<Rightarrow> nat \<Rightarrow> scope \<Rightarrow> state \<Rightarrow> acquisition \<times> state" where
  "GetOrCreateWorkflowExecutionWithTimeout ev domainID execution timeout callerScope s =
     GetOrCreateWorkflowExecution ev (WithDeadline (clock s + timeout)) domainID execution callerScope s"

text \<open>
  \<^verbatim>\<open>GetAndCreateWorkflowExecution\<close> returns the Context from the cache, the Context built
  for the database, the release handle, the hit flag and the error.
\<close>

type_synonym analysis = "ctx_ref option \<times> ctx_ref option \<times> ReleaseFunc option \<times> bool \<times> error option"

definition GetAndCreateWorkflowExecution ::
  "env \<Rightarrow> go_context \<Rightarrow> string \<Rightarrow> WorkflowExecution \<Rightarrow> state \<Rightarrow> analysis \<times> state" where
  "GetAndCreateWorkflowExecution ev ctx domainID execution s =
     (let scp = HistoryCacheGetAndCreateScope;
          s1 = emit (StartTimer scp CacheLatency) (emit (IncCounter scp CacheRequests) s)
      in case validateWorkflowExecutionInfo ev ctx domainID execution s1 of
           ((Some err, _), s2) \<Rightarrow>
             ((None, None, None, False, Some err),
              emit (StopTimer scp CacheLatency) (emit (IncCounter scp CacheFailures) s2))
         | ((None, execution1), s2) \<Rightarrow>
             (let key = NewWorkflowIdentifier domainID (WorkflowID execution1) (RunID execution1) in
             case cache_Get key s2 of
               (Some contextFromCache, s3) \<Rightarrow>
                 (case Lock ev ctx contextFromCache s3 of
                    (Some err, s4) \<Rightarrow>
                      ((None, None, None, False, Some err),
                       emit (StopTimer scp CacheLatency)
                         (emit (IncCounter HistoryCacheGetAndCreateScope AcquireLockFailedCounter)
                           (emit (IncCounter HistoryCacheGetAndCreateScope CacheFailures)
                             (cache_Release key s4))))
                  | (None, s4) \<Rightarrow>
                      (case makeReleaseFunc key contextFromCache False HistoryCacheGetAndCreateScope [] s4 of
                         (releaseFunc, s5) \<Rightarrow>
                           (case NewContext domainID execution1 s5 of
                              (contextFromDB, s6) \<Rightarrow>
                                ((Some contextFromCache, Some contextFromDB, Some releaseFunc, True, None),
                                 emit (StopTimer scp CacheLatency) s6))))
             | (None, s3) \<Rightarrow>
                 (case NewContext domainID execution1
                         (emit (IncCounter HistoryCacheGetAndCreateScope CacheMissCounter) s3) of
                    (contextFromDB, s4) \<Rightarrow>
                      ((None, Some contextFromDB, Some NoopReleaseFn, False, None),
                       emit (StopTimer scp CacheLatency) s4))))"

text \<open>The calls arrived between two states: the part of the trace the later one adds.\<close>

definition new_events :: "state \<Rightarrow> state \<Rightarrow> event list" where
  "new_events s s' = drop (length (trace s)) (trace s')"

text \<open>
  The keys a call hands to the map (to \<^verbatim>\<open>Get\<close>, \<^verbatim>\<open>PutIfNotExist\<close> or \<^verbatim>\<open>Release\<close>), in the
  order of the calls, followed by the keys the map has after the call and had not before.
\<close>

fun event_keys :: "event \<Rightarrow> WorkflowIdentifier list" where
  "event_keys (GetEv k) = [k]"
| "event_keys (PutIfNotExistEv k c) = [k]"
| "event_keys (ReleaseEv k) = [k]"
| "event_keys _ = []"

definition keys_touched :: "state \<Rightarrow> state \<Rightarrow> WorkflowIdentifier list" where
  "keys_touched s s' =
     concat (map event_keys (new_events s s'))
       @ filter (\<lambda>k. k \<notin> set (keys_of (lruCache s))) (keys_of (lruCache s'))"


subsection \<open>Scenarios\<close>

text \<open>
  The collaborators of the end-to-end scenarios: storage answers with the run \<^verbatim>\<open>r9\<close>, the
  domain is named \<^verbatim>\<open>dom\<close>, and \<^verbatim>\<open>uuid.Parse\<close> is stood in for by a check of the length.
  With \<open>env_ok\<close> the lock is free; with \<open>env_cancelled\<close> the caller's scope ends after 5 ms
  of waiting for it.
\<close>

definition env_ok :: env where
  "env_ok =
     \<lparr>uuid_Parse = (\<lambda>s. if length s = 36 then Some s else None),
      GetCurrentExecution = (\<lambda>_ _ _ _. Inr ''r9''),
      retry_maxRetries = 3,
      retry_backoff = (\<lambda>_. 50),
      GetDomainName = (\<lambda>_. Inr ''dom''),
      Context_Lock = (\<lambda>_. (None, 0))\<rparr>"

definition env_cancelled :: env where
  "env_cancelled = env_ok\<lparr>Context_Lock := (\<lambda>_. (Some DeadlineExceeded, 5))\<rparr>"

definition config0 :: Config where
  "config0 = \<lparr>HistoryCacheInitialSize = 1, HistoryCacheTTL = 1000, HistoryCacheMaxSize = 2\<rparr>"

text \<open>
  Scenario "current run resolution" for \<^verbatim>\<open>GetOrCreateWorkflowExecution\<close>: on a new cache,
  the caller asks for workflow \<^verbatim>\<open>w1\<close> of domain \<^verbatim>\<open>d1\<close> without a run id.
\<close>

definition key9 :: WorkflowIdentifier where
  "key9 = \<lparr>key_DomainID = ''d1'', key_WorkflowID = ''w1'', key_RunID = ''r9''\<rparr>"

definition acquired :: "acquisition \<times> state" where
  "acquired =
     GetOrCreateWorkflowExecution env_ok Background ''d1'' \<lparr>WorkflowID = ''w1'', RunID = []\<rparr>
       (OtherScope 7) (NewCache config0)"

definition handle9 :: ReleaseFunc where
  "handle9 = ReleaseClosure key9 0 False (OtherScope 7) ''dom'' 0 0"

text \<open>
  Scenario "current run" for \<^verbatim>\<open>GetOrCreateCurrentWorkflowExecution\<close>: on a new cache, the
  caller asks for the current run of workflow \<^verbatim>\<open>w1\<close> of domain \<^verbatim>\<open>d1\<close>.
\<close>

definition key_current :: WorkflowIdentifier where
  "key_current = \<lparr>key_DomainID = ''d1'', key_WorkflowID = ''w1'', key_RunID = []\<rparr>"

definition acquired_current :: "acquisition \<times> state" where
  "acquired_current =
     GetOrCreateCurrentWorkflowExecution env_ok Background ''d1'' ''w1'' (NewCache config0)"

definition handle_current :: ReleaseFunc where
  "handle_current = ReleaseClosure key_current 0 True HistoryCacheGetOrCreateCurrentScope ''dom'' 0 0"

text \<open>
  Scenario "cancellation during lock": the Context of \<open>key9\<close> is held by the caller of
  \<open>acquired\<close>; a second caller asks for it under a scope that ends after 5 ms.
\<close>

definition blocked_internal :: "acquisition \<times> state" where
  "blocked_internal =
     getOrCreateWorkflowExecutionInternal env_cancelled (WithDeadline 5) ''d1''
       \<lparr>WorkflowID = ''w1'', RunID = ''r9''\<rparr> HistoryCacheGetOrCreateScope False (OtherScope 8)
       (snd acquired)"

definition blocked_analysis :: "analysis \<times> state" where
  "blocked_analysis =
     GetAndCreateWorkflowExecution env_cancelled (WithDeadline 5) ''d1''
       \<lparr>WorkflowID = ''w1'', RunID = []\<rparr> (snd acquired)"

text \<open>Scenario "invalid run id".\<close>

definition bad_run :: WorkflowExecution where
  "bad_run = \<lparr>WorkflowID = ''w1'', RunID = ''not-a-uuid''\<rparr>"

text \<open>
  Scenario "resolution with retry": storage is busy at the first attempt and answers at
  the second (\<open>env_flaky\<close>), or knows no current execution (\<open>env_missing\<close>). The backoff
  of the policy is 50 ms, so a caller whose scope ends at 5 ms gets no second attempt.
\<close>

definition env_flaky :: env where
  "env_flaky = env_ok\<lparr>GetCurrentExecution :=
     (\<lambda>_ i _ _. if i = 0 then Inl (TransientStorage ''busy'') else Inr ''r9'')\<rparr>"

definition env_missing :: env where
  "env_missing = env_ok\<lparr>GetCurrentExecution :=
     (\<lambda>_ _ _ _. Inl (PermanentStorage ''no current execution''))\<rparr>"

definition current_of_w1 :: WorkflowExecution where
  "current_of_w1 = \<lparr>WorkflowID = ''w1'', RunID = []\<rparr>"

text \<open>
  The Contexts the map holds are constructed ones: every reference in the map is an
  address of the heap of Contexts.
\<close>

definition refs_allocated :: "state \<Rightarrow> bool" where
  "refs_allocated s = list_all (\<lambda>r. r < length (contexts s)) (values_of (lruCache s))"


text \<open>
  Scenario "analysis": after the caller of \<open>acquired\<close> has released, and on a new cache.
\<close>

definition released :: state where
  "released = snd (call_ReleaseFunc handle9 None None (snd acquired))"

definition analysis_hit :: "analysis \<times> state" where
  "analysis_hit = GetAndCreateWorkflowExecution env_ok Background ''d1'' current_of_w1 released"

definition analysis_miss :: "analysis \<times> state" where
  "analysis_miss = GetAndCreateWorkflowExecution env_ok Background ''d1'' current_of_w1 (NewCache config0)"

text \<open>
  A sequence of calls on the facade and on release handles, each with the answers of the
  collaborators during it, run one after the other.
\<close>

datatype call =
  CallGetOrCreate env go_context string WorkflowExecution scope
| CallGetOrCreateCurrent env go_context string string
| CallGetAndCreate env go_context string WorkflowExecution
| CallRelease ReleaseFunc "error option" "fault option"

fun step :: "call \<Rightarrow> state \<Rightarrow> state" where
  "step (CallGetOrCreate ev ctx domainID execution callerScope) s =
     snd (GetOrCreateWorkflowExecution ev ctx domainID execution callerScope s)"
| "step (CallGetOrCreateCurrent ev ctx domainID workflowID) s =
     snd (GetOrCreateCurrentWorkflowExecution ev ctx domainID workflowID s)"
| "step (CallGetAndCreate ev ctx domainID execution) s =
     snd (GetAndCreateWorkflowExecution ev ctx domainID execution s)"
| "step (CallRelease h err rec) s = snd (call_ReleaseFunc h err rec s)"

fun run :: "call list \<Rightarrow> state \<Rightarrow> state" where
  "run [] s = s"
| "run (c # cs) s = run cs (step c s)"


text \<open>
  Scenario "stale entry": the Context of \<open>key9\<close> is still held by the caller of
  \<open>acquired\<close> when its time-to-live has passed, and a second caller asks for it; and a
  sequence of three calls on a new cache.
\<close>

definition stale :: state where
  "stale = (snd acquired)\<lparr>clock := 5000\<rparr>"

definition second_acquire :: "acquisition \<times> state" where
  "second_acquire =
     getOrCreateWorkflowExecutionInternal env_ok Background ''d1''
       \<lparr>WorkflowID = ''w1'', RunID = ''r9''\<rparr> HistoryCacheGetOrCreateScope False (OtherScope 8) stale"

definition three_calls :: "call list" where
  "three_calls =
     [CallGetOrCreate env_ok Background ''d1'' current_of_w1 (OtherScope 7),
      CallGetOrCreateCurrent env_ok Background ''d1'' ''w1'',
      CallRelease handle9 None None]"

text \<open>
  Scenario "a map that is not empty": a second caller on the state of \<open>acquired_current\<close>
  (the map holds the key of the current run) asks for workflow \<^verbatim>\<open>w1\<close> without a run id
  through \<^verbatim>\<open>GetOrCreateWorkflowExecution\<close>; on the state of \<open>acquired\<close> (the map holds
  \<open>key9\<close>) one caller asks for the analysis of the run \<open>run_a\<close> and another for the current
  run.
\<close>

definition run_a :: string where
  "run_a = ''0a1b2c3d-0000-4000-8000-00000000000a''"

definition key_a :: WorkflowIdentifier where
  "key_a = \<lparr>key_DomainID = ''d1'', key_WorkflowID = ''w1'', key_RunID = run_a\<rparr>"

definition acquired_second :: "acquisition \<times> state" where
  "acquired_second =
     GetOrCreateWorkflowExecution env_ok Background ''d1'' current_of_w1 (OtherScope 7) (snd acquired_current)"

definition analysis_a :: "analysis \<times> state" where
  "analysis_a =
     GetAndCreateWorkflowExecution env_ok Background ''d1'' \<lparr>WorkflowID = ''w1'', RunID = run_a\<rparr> (snd acquired)"

definition current_second :: "acquisition \<times> state" where
  "current_second = GetOrCreateCurrentWorkflowExecution env_ok Background ''d1'' ''w1'' (snd acquired)"

definition handle_current_second :: ReleaseFunc where
  "handle_current_second = ReleaseClosure key_current 1 True HistoryCacheGetOrCreateCurrentScope ''dom'' 0 1"

section \<open>Properties\<close>

subsection \<open>Fields of the state after each step\<close>

lemma emit_fields [simp]:
  "lruCache (emit e s) = lruCache s"
  "disabled (emit e s) = disabled s"
  "clock (emit e s) = clock s"
  "contexts (emit e s) = contexts s"
  "statuses (emit e s) = statuses s"
  "next_status (emit e s) = next_status s"
  "trace (emit e s) = trace s @ [e]"
  by (simp_all add: emit_def)

lemma sleep_fields [simp]:
  "lruCache (sleep d s) = lruCache s"
  "disabled (sleep d s) = disabled s"
  "clock (sleep d s) = clock s + d"
  "contexts (sleep d s) = contexts s"
  "statuses (sleep d s) = statuses s"
  "next_status (sleep d s) = next_status s"
  "trace (sleep d s) = trace s @ [SleepEv d]"
  by (simp_all add: sleep_def)

lemma recover_nil [simp]: "recover panicking = None"
  by (simp add: recover_def)

lemma wait_frame:
  assumes "wait ctx d s = (r, s')"
  shows "lruCache s' = lruCache s" "disabled s' = disabled s" "contexts s' = contexts s"
    "statuses s' = statuses s" "next_status s' = next_status s"
    "\<exists>x. trace s' = trace s @ [SleepEv x]"
  using assms by (auto simp: wait_def split: option.splits if_splits)

lemma wait_None:
  "wait ctx d s = (None, s') \<longleftrightarrow>
     s' = sleep d s \<and> (\<forall>t err. ctx_end ctx = Some (t, err) \<longrightarrow> clock s + d < t)"
  by (auto simp: wait_def split: option.splits)

lemma wait_Some:
  "wait ctx d s = (Some err, s') \<longleftrightarrow>
     (\<exists>t. ctx_end ctx = Some (t, err) \<and> t \<le> clock s + d \<and> s' = sleep (t - clock s) s)"
  by (auto simp: wait_def split: option.splits)

lemma canary_sleep_fields [simp]:
  "lruCache (canary_sleep dn cs s) = lruCache s"
  "disabled (canary_sleep dn cs s) = disabled s"
  "clock (canary_sleep dn cs s) = clock s + (case canary_delay dn cs of None \<Rightarrow> 0 | Some d \<Rightarrow> d)"
  "contexts (canary_sleep dn cs s) = contexts s"
  "statuses (canary_sleep dn cs s) = statuses s"
  "next_status (canary_sleep dn cs s) = next_status s"
  "trace (canary_sleep dn cs s) = trace s @ (case canary_delay dn cs of None \<Rightarrow> [] | Some d \<Rightarrow> [SleepEv d])"
  by (simp_all add: canary_sleep_def split: option.splits)

lemma cache_Release_fields [simp]:
  "lruCache (cache_Release k s) = lru_Release k (clock s) (lruCache s)"
  "disabled (cache_Release k s) = disabled s"
  "clock (cache_Release k s) = clock s"
  "contexts (cache_Release k s) = contexts s"
  "statuses (cache_Release k s) = statuses s"
  "next_status (cache_Release k s) = next_status s"
  "trace (cache_Release k s) = trace s @ [ReleaseEv k]"
  by (simp_all add: cache_Release_def)

lemma cacheReleased_neq [simp]: "cacheReleased \<noteq> cacheNotReleased"
  by (simp add: cacheReleased_def cacheNotReleased_def)





subsection \<open>The map\<close>

lemma map_of_remove_key:
  "map_of (remove_key k xs) k' = (if k' = k then None else map_of xs k')"
  by (induction xs) (auto simp: remove_key_def)

lemma keys_remove_key:
  "fst ` set (remove_key k xs) = fst ` set xs - {k}"
  by (auto simp: remove_key_def)

lemma map_of_Some_key: "map_of xs k = Some e \<Longrightarrow> k \<in> fst ` set xs"
  by (force dest: map_of_SomeD)

lemma find_Some_set: "find P xs = Some x \<Longrightarrow> x \<in> set xs \<and> P x"
  by (induction xs) (auto split: if_splits)

lemma distinct_remove_key:
  "distinct (map fst xs) \<Longrightarrow> distinct (map fst (remove_key k xs))"
  by (simp add: remove_key_def distinct_map_filter)

lemma distinct_touch:
  "distinct (map fst xs) \<Longrightarrow> distinct (map fst (touch k e xs))"
  by (simp add: touch_def distinct_remove_key keys_remove_key)

lemma map_of_touch:
  "map_of (touch k e xs) k' = (if k' = k then Some e else map_of xs k')"
  by (simp add: touch_def map_of_remove_key)

lemma map_of_repin:
  "map_of (map (\<lambda>p. if fst p = k then (k, e) else p) xs) k' =
     (if k' = k then (case map_of xs k of None \<Rightarrow> None | Some _ \<Rightarrow> Some e) else map_of xs k')"
  by (induction xs) (auto split: option.splits)

lemma keys_repin:
  "map fst (map (\<lambda>p. if fst p = k then (k, e) else p) xs) = map fst xs"
  by (induction xs) auto

lemma victim_unpinned:
  assumes "lru_victim xs = Some old" and "distinct (map fst xs)"
  shows "\<exists>e. map_of xs old = Some e \<and> pinCount e = 0"
proof -
  from assms(1) obtain p where p: "find (\<lambda>p. pinCount (snd p) = 0) (rev xs) = Some p" "old = fst p"
    by (auto simp: lru_victim_def split: option.splits)
  then have "p \<in> set xs" "pinCount (snd p) = 0"
    by (auto dest: find_Some_set)
  with assms(2) p(2) show ?thesis
    by (cases p) auto
qed

lemma pin_count_Get:
  "pin_count (snd (lru_Get k now m)) k' =
     (if fst (lru_Get k now m) \<noteq> None \<and> k' = k then pin_count m k + 1 else pin_count m k')"
  by (auto simp: lru_Get_def pin_count_def map_of_touch map_of_remove_key split: option.splits)

lemma keys_Get: "set (keys_of (snd (lru_Get k now m))) \<subseteq> set (keys_of m)"
  by (auto simp: lru_Get_def keys_of_def touch_def remove_key_def map_of_Some_key split: option.splits)

lemma distinct_Get: "distinct (keys_of m) \<Longrightarrow> distinct (keys_of (snd (lru_Get k now m)))"
  by (auto simp: lru_Get_def keys_of_def distinct_touch distinct_remove_key split: option.splits)

lemma pin_count_Put:
  assumes "distinct (keys_of m)"
  shows "pin_count (snd (lru_PutIfNotExist k v now m)) k' =
     (if (\<exists>c. fst (lru_PutIfNotExist k v now m) = Inr c) \<and> k' = k then pin_count m k + 1 else pin_count m k')"
proof (cases "map_of (entries m) k")
  case (Some e)
  then show ?thesis
    by (simp add: lru_PutIfNotExist_def pin_count_def map_of_touch)
next
  case absent: None
  show ?thesis
  proof (cases "length (entries m) < maxCount m")
    case True
    with absent show ?thesis
      by (simp add: lru_PutIfNotExist_def pin_count_def Let_def)
  next
    case full: False
    show ?thesis
    proof (cases "lru_victim (entries m)")
      case None
      with absent full show ?thesis
        by (simp add: lru_PutIfNotExist_def pin_count_def Let_def)
    next
      case (Some old)
      with assms obtain e where "map_of (entries m) old = Some e" "pinCount e = 0"
        using victim_unpinned [of "entries m" old] by (auto simp: keys_of_def)
      with absent full Some show ?thesis
        by (simp add: lru_PutIfNotExist_def pin_count_def Let_def map_of_remove_key)
    qed
  qed
qed

lemma keys_Put: "set (keys_of (snd (lru_PutIfNotExist k v now m))) \<subseteq> insert k (set (keys_of m))"
  by (auto simp: lru_PutIfNotExist_def keys_of_def touch_def remove_key_def Let_def split: option.splits)

lemma distinct_Put: "distinct (keys_of m) \<Longrightarrow> distinct (keys_of (snd (lru_PutIfNotExist k v now m)))"
  by (auto simp: lru_PutIfNotExist_def keys_of_def distinct_touch distinct_remove_key keys_remove_key Let_def
           map_of_eq_None_iff split: option.splits)

lemma pin_count_Release:
  "pin_count (lru_Release k now m) k' = (if k' = k then pin_count m k - 1 else pin_count m k')"
  by (auto simp: lru_Release_def pin_count_def map_of_remove_key map_of_repin Let_def split: option.splits)

lemma keys_Release: "set (keys_of (lru_Release k now m)) \<subseteq> set (keys_of m)"
  by (auto simp: lru_Release_def keys_of_def keys_repin remove_key_def Let_def map_of_Some_key split: option.splits simp del: map_map)

lemma distinct_Release: "distinct (keys_of m) \<Longrightarrow> distinct (keys_of (lru_Release k now m))"
  by (auto simp: lru_Release_def keys_of_def keys_repin distinct_remove_key Let_def split: option.splits simp del: map_map)

subsection \<open>The scenarios, evaluated\<close>

lemmas facade_defs =
  GetOrCreateWorkflowExecution_def GetOrCreateCurrentWorkflowExecution_def
  GetAndCreateWorkflowExecution_def getOrCreateWorkflowExecutionInternal_def
  validateWorkflowExecutionInfo_def getCurrentExecutionWithRetry_def
  makeReleaseFunc_def Lock_def cache_Get_def cache_PutIfNotExist_def cache_Release_def
  NewContext_def NewWorkflowIdentifier_def emit_def sleep_def NewCache_def
  lru_Get_def lru_PutIfNotExist_def lru_Release_def lru_victim_def expired_def touch_def
  remove_key_def IsTransientError_def env_ok_def env_cancelled_def config0_def
  cacheNotReleased_def cacheReleased_def new_events_def canary_sleep_def canary_delay_def
  wait_def numeral_3_eq_3

lemma acquired_result: "fst acquired = (Some 0, Some handle9, None)"
  by (simp add: acquired_def key9_def handle9_def facade_defs Let_def)

lemma acquired_status: "statuses (snd acquired) 0 = cacheNotReleased"
  by (simp add: acquired_def facade_defs Let_def)

lemma acquired_cache:
  "lruCache (snd acquired) =
     \<lparr>entries = [(key9, \<lparr>entry_value = 0, pinCount = 1, insertedAt = 0\<rparr>)], maxCount = 2, ttl = 1000\<rparr>"
  by (simp add: acquired_def key9_def facade_defs Let_def)

lemma acquired_clock: "clock (snd acquired) = 0"
  by (simp add: acquired_def facade_defs Let_def)



lemma acquired_current_cache:
  "lruCache (snd acquired_current) =
     \<lparr>entries = [(key_current, \<lparr>entry_value = 0, pinCount = 1, insertedAt = 0\<rparr>)], maxCount = 2, ttl = 1000\<rparr>"
  by (simp add: acquired_current_def key_current_def facade_defs Let_def)




lemma blocked_internal_result: "fst blocked_internal = (None, None, Some DeadlineExceeded)"
  by (simp add: blocked_internal_def acquired_def facade_defs Let_def)

lemma blocked_internal_events:
  "new_events (snd acquired) (snd blocked_internal) =
     [GetEv key9, ScopeStartTimer (OtherScope 8) ''dom'' LockWaitLatency,
      LockEv 0 (Some DeadlineExceeded), ReleaseEv key9,
      IncCounter HistoryCacheGetOrCreateScope CacheFailures,
      IncCounter HistoryCacheGetOrCreateScope AcquireLockFailedCounter,
      ScopeStopTimer (OtherScope 8) ''dom'' LockWaitLatency]"
  by (simp add: blocked_internal_def acquired_def key9_def facade_defs Let_def)

lemma blocked_internal_cache:
  "lruCache (snd blocked_internal) =
     \<lparr>entries = [(key9, \<lparr>entry_value = 0, pinCount = 1, insertedAt = 0\<rparr>)], maxCount = 2, ttl = 1000\<rparr>"
  by (simp add: blocked_internal_def acquired_def key9_def facade_defs Let_def)

lemma blocked_analysis_result: "fst blocked_analysis = (None, None, None, False, Some DeadlineExceeded)"
  by (simp add: blocked_analysis_def acquired_def facade_defs Let_def)

lemma blocked_analysis_events:
  "new_events (snd acquired) (snd blocked_analysis) =
     [IncCounter HistoryCacheGetAndCreateScope CacheRequests,
      StartTimer HistoryCacheGetAndCreateScope CacheLatency,
      IncCounter HistoryCacheGetCurrentExecutionScope CacheRequests,
      StartTimer HistoryCacheGetCurrentExecutionScope CacheLatency,
      GetCurrentExecutionEv ''d1'' ''w1'',
      StopTimer HistoryCacheGetCurrentExecutionScope CacheLatency,
      GetEv key9,
      LockEv 0 (Some DeadlineExceeded), ReleaseEv key9,
      IncCounter HistoryCacheGetAndCreateScope CacheFailures,
      IncCounter HistoryCacheGetAndCreateScope AcquireLockFailedCounter,
      StopTimer HistoryCacheGetAndCreateScope CacheLatency]"
  by (simp add: blocked_analysis_def acquired_def key9_def facade_defs Let_def)

lemma blocked_analysis_cache:
  "lruCache (snd blocked_analysis) =
     \<lparr>entries = [(key9, \<lparr>entry_value = 0, pinCount = 1, insertedAt = 0\<rparr>)], maxCount = 2, ttl = 1000\<rparr>"
  by (simp add: blocked_analysis_def acquired_def key9_def facade_defs Let_def)

lemma blocked_analysis_contexts: "contexts (snd blocked_analysis) = contexts (snd acquired)"
  by (simp add: blocked_analysis_def acquired_def key9_def facade_defs Let_def)


lemma acquired_distinct: "distinct (keys_of (lruCache (snd acquired)))"
  by (simp add: acquired_cache keys_of_def)

lemma blocked_internal_eq:
  "getOrCreateWorkflowExecutionInternal env_cancelled (WithDeadline 5) ''d1''
       \<lparr>WorkflowID = ''w1'', RunID = ''r9''\<rparr> HistoryCacheGetOrCreateScope False (OtherScope 8)
       (snd acquired) = ((None, None, Some DeadlineExceeded), snd blocked_internal)"
  using blocked_internal_result by (simp add: blocked_internal_def prod_eq_iff)

lemma blocked_analysis_eq:
  "GetAndCreateWorkflowExecution env_cancelled (WithDeadline 5) ''d1''
       \<lparr>WorkflowID = ''w1'', RunID = []\<rparr> (snd acquired) =
     ((None, None, None, False, Some DeadlineExceeded), snd blocked_analysis)"
  using blocked_analysis_result by (simp add: blocked_analysis_def prod_eq_iff)

subsection \<open>Successful acquisitions\<close>



lemma first_call:
  "statuses s a = cacheNotReleased \<Longrightarrow>
   call_ReleaseFunc (ReleaseClosure key c force cs dn start a) err panicking s =
     (panicking,
      s\<lparr>lruCache := lru_Release key (clock s + (case canary_delay dn cs of None \<Rightarrow> 0 | Some d \<Rightarrow> d)) (lruCache s),
        clock := clock s + (case canary_delay dn cs of None \<Rightarrow> 0 | Some d \<Rightarrow> d),
        statuses := (statuses s)(a := cacheReleased),
        trace := trace s @ (if err \<noteq> None \<or> force then [ClearEv c] else [])
                   @ (case canary_delay dn cs of None \<Rightarrow> [] | Some d \<Rightarrow> [SleepEv d])
                   @ [UnlockEv c,
                      RecordTimer cs dn LockHoldLatency
                        (clock s + (case canary_delay dn cs of None \<Rightarrow> 0 | Some d \<Rightarrow> d) - start),
                      ReleaseEv key]\<rparr>)"
  by (simp add: emit_def cache_Release_def canary_sleep_def sleep_def split: option.splits)

lemma canary_delay_current [simp]: "canary_delay dn HistoryCacheGetOrCreateCurrentScope = None"
  by (simp add: canary_delay_def)

subsection \<open>Validation and the resolver leave the map and the Contexts alone\<close>

lemma Do_frame:
  "lruCache (snd (throttleRetry_Do ev ctx d w n i s)) = lruCache s
   \<and> disabled (snd (throttleRetry_Do ev ctx d w n i s)) = disabled s
   \<and> contexts (snd (throttleRetry_Do ev ctx d w n i s)) = contexts s
   \<and> statuses (snd (throttleRetry_Do ev ctx d w n i s)) = statuses s
   \<and> next_status (snd (throttleRetry_Do ev ctx d w n i s)) = next_status s"
  by (induction n arbitrary: i s)
     (auto simp: Let_def split: sum.splits prod.splits option.splits dest: wait_frame)

lemma Do_trace:
  "\<exists>xs. trace (snd (throttleRetry_Do ev ctx d w n i s)) = trace s @ xs
        \<and> set xs \<subseteq> insert (GetCurrentExecutionEv d w) (range SleepEv)"
proof (induction n arbitrary: i s)
  case 0
  show ?case by simp
next
  case (Suc n)
  let ?s1 = "emit (GetCurrentExecutionEv d w) s"
  show ?case
  proof (cases "GetCurrentExecution ev ctx i d w")
    case (Inr r)
    then show ?thesis by (simp add: Let_def)
  next
    case (Inl err)
    show ?thesis
    proof (cases "IsTransientError err")
      case False
      with Inl show ?thesis by (simp add: Let_def)
    next
      case True
      obtain r s2 where wt: "wait ctx (retry_backoff ev i) ?s1 = (r, s2)"
        by (metis surj_pair)
      from wait_frame(6) [OF wt] obtain x where
        x: "trace s2 = trace s @ [GetCurrentExecutionEv d w, SleepEv x]"
        by auto
      show ?thesis
      proof (cases r)
        case (Some cancelled)
        with Inl True wt x show ?thesis by (simp add: Let_def)
      next
        case None
        from Suc [of "Suc i" s2] x obtain xs where
          "trace (snd (throttleRetry_Do ev ctx d w n (Suc i) s2)) =
             trace s @ [GetCurrentExecutionEv d w, SleepEv x] @ xs"
          "set xs \<subseteq> insert (GetCurrentExecutionEv d w) (range SleepEv)"
          by auto
        with Inl True wt None show ?thesis by (simp add: Let_def)
      qed
    qed
  qed
qed


lemma resolve_frame:
  "lruCache (snd (getCurrentExecutionWithRetry ev ctx d w s)) = lruCache s"
  "disabled (snd (getCurrentExecutionWithRetry ev ctx d w s)) = disabled s"
  "contexts (snd (getCurrentExecutionWithRetry ev ctx d w s)) = contexts s"
  "statuses (snd (getCurrentExecutionWithRetry ev ctx d w s)) = statuses s"
  "next_status (snd (getCurrentExecutionWithRetry ev ctx d w s)) = next_status s"
  by (simp_all add: getCurrentExecutionWithRetry_def Let_def Do_frame split: sum.splits)

lemma resolve_trace_events:
  "\<exists>xs. trace (snd (getCurrentExecutionWithRetry ev ctx d w s)) = trace s @ xs
        \<and> set xs \<subseteq> {IncCounter HistoryCacheGetCurrentExecutionScope CacheRequests,
                      StartTimer HistoryCacheGetCurrentExecutionScope CacheLatency,
                      IncCounter HistoryCacheGetCurrentExecutionScope CacheFailures,
                      StopTimer HistoryCacheGetCurrentExecutionScope CacheLatency,
                      GetCurrentExecutionEv d w} \<union> range SleepEv"
proof -
  let ?s2 = "emit (StartTimer HistoryCacheGetCurrentExecutionScope CacheLatency)
               (emit (IncCounter HistoryCacheGetCurrentExecutionScope CacheRequests) s)"
  from Do_trace [of ev ctx d w "retry_maxRetries ev" 0 ?s2]
  obtain xs where xs:
    "trace (snd (throttleRetry_Do ev ctx d w (retry_maxRetries ev) 0 ?s2)) = trace ?s2 @ xs"
    "set xs \<subseteq> insert (GetCurrentExecutionEv d w) (range SleepEv)"
    by blast
  show ?thesis
  proof (cases "fst (throttleRetry_Do ev ctx d w (retry_maxRetries ev) 0 ?s2)")
    case (Inl err)
    with xs show ?thesis
      by (auto simp: getCurrentExecutionWithRetry_def Let_def)
  next
    case (Inr r)
    with xs show ?thesis
      by (auto simp: getCurrentExecutionWithRetry_def Let_def)
  qed
qed

lemma resolve_trace:
  "\<exists>xs. trace (snd (getCurrentExecutionWithRetry ev ctx d w s)) = trace s @ xs
        \<and> (\<forall>c r. LockEv c r \<notin> set xs) \<and> (\<forall>k. GetEv k \<notin> set xs)"
  using resolve_trace_events [of ev ctx d w s] by auto

lemma validate_cases:
  "validateWorkflowExecutionInfo ev ctx d ex s = ((oe, ex1), s1) \<Longrightarrow>
     s1 = s \<or> s1 = snd (getCurrentExecutionWithRetry ev ctx d (WorkflowID ex) s)"
  by (auto simp: validateWorkflowExecutionInfo_def split: if_splits sum.splits prod.splits)

lemma validate_frame:
  assumes "validateWorkflowExecutionInfo ev ctx d ex s = ((oe, ex1), s1)"
  shows "lruCache s1 = lruCache s" "disabled s1 = disabled s" "contexts s1 = contexts s"
    "statuses s1 = statuses s" "next_status s1 = next_status s"
  using validate_cases [OF assms] by (auto simp: resolve_frame)

lemma validate_trace:
  assumes "validateWorkflowExecutionInfo ev ctx d ex s = ((oe, ex1), s1)"
  shows "\<exists>xs. trace s1 = trace s @ xs \<and> (\<forall>c r. LockEv c r \<notin> set xs) \<and> (\<forall>k. GetEv k \<notin> set xs)"
  using validate_cases [OF assms] resolve_trace [of ev ctx d "WorkflowID ex" s] by auto

lemma validate_ok:
  assumes "validateWorkflowExecutionInfo ev ctx d ex s = ((None, ex1), s1)"
  shows "WorkflowID ex1 = WorkflowID ex" "WorkflowID ex \<noteq> []"
    "RunID ex \<noteq> [] \<longrightarrow> ex1 = ex \<and> s1 = s \<and> uuid_Parse ev (RunID ex) \<noteq> None"
    "RunID ex = [] \<longrightarrow> getCurrentExecutionWithRetry ev ctx d (WorkflowID ex) s = (Inr (RunID ex1), s1)"
  using assms
  by (auto simp: validateWorkflowExecutionInfo_def split: if_splits sum.splits prod.splits)


subsection \<open>An acquisition whose lock fails\<close>

lemmas step_defs =
  cache_Get_def cache_PutIfNotExist_def NewContext_def Lock_def makeReleaseFunc_def

lemma internal_lock_failed_result:
  assumes "getOrCreateWorkflowExecutionInternal ev ctx d ex scp force cs s = (res, s')"
    and "LockEv c (Some e) \<in> set (new_events s s')"
  shows "res = (None, None, Some e)"
  using assms
  by (auto simp: getOrCreateWorkflowExecutionInternal_def step_defs new_events_def Let_def
           split: if_splits prod.splits option.splits sum.splits)


lemma internal_lock_failed_events:
  assumes "getOrCreateWorkflowExecutionInternal ev ctx d ex scp force cs s = (res, s')"
    and "LockEv c (Some e) \<in> set (new_events s s')"
  shows "\<exists>pre dn. new_events s s' =
           pre @ [LockEv c (Some e),
                  ReleaseEv (NewWorkflowIdentifier d (WorkflowID ex) (RunID ex)),
                  IncCounter scp CacheFailures, IncCounter scp AcquireLockFailedCounter,
                  ScopeStopTimer cs dn LockWaitLatency]
           \<and> (\<forall>c' r. LockEv c' r \<notin> set pre)"
  using assms
  by (auto simp: getOrCreateWorkflowExecutionInternal_def step_defs new_events_def Let_def
           split: if_splits prod.splits option.splits sum.splits)

lemma internal_lock_failed_pins:
  assumes "getOrCreateWorkflowExecutionInternal ev ctx d ex scp force cs s = (res, s')"
    and "LockEv c (Some e) \<in> set (new_events s s')"
    and "distinct (keys_of (lruCache s))"
  shows "pin_count (lruCache s') k = pin_count (lruCache s) k"
  using assms distinct_Get [of "lruCache s" "NewWorkflowIdentifier d (WorkflowID ex) (RunID ex)" "clock s"]
  by (auto simp: getOrCreateWorkflowExecutionInternal_def step_defs new_events_def Let_def
                 pin_count_Release pin_count_Put pin_count_Get
           split: if_splits prod.splits option.splits sum.splits)


lemma Get_hit:
  "fst (lru_Get k now m) = Some c \<Longrightarrow> \<exists>en. map_of (entries m) k = Some en \<and> entry_value en = c"
  by (auto simp: lru_Get_def split: option.splits if_splits)

lemma analysis_lock_failed:
  assumes r: "GetAndCreateWorkflowExecution ev ctx d ex s = (res, s')"
    and l: "LockEv c (Some e) \<in> set (new_events s s')"
  shows "res = (None, None, None, False, Some e)"
    and "contexts s' = contexts s"
    and "\<exists>pre runID. new_events s s' =
           pre @ [LockEv c (Some e),
                  ReleaseEv (NewWorkflowIdentifier d (WorkflowID ex) runID),
                  IncCounter HistoryCacheGetAndCreateScope CacheFailures,
                  IncCounter HistoryCacheGetAndCreateScope AcquireLockFailedCounter,
                  StopTimer HistoryCacheGetAndCreateScope CacheLatency]
           \<and> (\<forall>c' r. LockEv c' r \<notin> set pre)
           \<and> (RunID ex \<noteq> [] \<longrightarrow> runID = RunID ex)"
    and "pin_count (lruCache s') k = pin_count (lruCache s) k"
proof -
  let ?s1 = "emit (StartTimer HistoryCacheGetAndCreateScope CacheLatency)
               (emit (IncCounter HistoryCacheGetAndCreateScope CacheRequests) s)"
  obtain oe ex1 s2 where v: "validateWorkflowExecutionInfo ev ctx d ex ?s1 = ((oe, ex1), s2)"
    by (metis surj_pair)
  from validate_trace [OF v] obtain xs where
    xs: "trace s2 = trace s @ IncCounter HistoryCacheGetAndCreateScope CacheRequests
                     # StartTimer HistoryCacheGetAndCreateScope CacheLatency # xs"
        "\<forall>c r. LockEv c r \<notin> set xs"
    by auto
  note fr = validate_frame [OF v]
  have ok: "oe = None \<longrightarrow> WorkflowID ex1 = WorkflowID ex \<and> (RunID ex \<noteq> [] \<longrightarrow> ex1 = ex)"
    using validate_ok [of ev ctx d ex ?s1 ex1 s2] v by auto
  show "res = (None, None, None, False, Some e)"
    using r l v xs
    by (auto simp: GetAndCreateWorkflowExecution_def step_defs new_events_def Let_def
             split: if_splits prod.splits option.splits sum.splits)
  show "contexts s' = contexts s"
    using r l v xs fr
    by (auto simp: GetAndCreateWorkflowExecution_def step_defs new_events_def Let_def
             split: if_splits prod.splits option.splits sum.splits)
  show "pin_count (lruCache s') k = pin_count (lruCache s) k"
    using r l v xs fr
    by (auto simp: GetAndCreateWorkflowExecution_def step_defs new_events_def Let_def
                   pin_count_Release pin_count_Get
             split: if_splits prod.splits option.splits sum.splits)
  show "\<exists>pre runID. new_events s s' =
           pre @ [LockEv c (Some e),
                  ReleaseEv (NewWorkflowIdentifier d (WorkflowID ex) runID),
                  IncCounter HistoryCacheGetAndCreateScope CacheFailures,
                  IncCounter HistoryCacheGetAndCreateScope AcquireLockFailedCounter,
                  StopTimer HistoryCacheGetAndCreateScope CacheLatency]
           \<and> (\<forall>c' r. LockEv c' r \<notin> set pre)
           \<and> (RunID ex \<noteq> [] \<longrightarrow> runID = RunID ex)"
    using r l v xs ok
    by (auto simp: GetAndCreateWorkflowExecution_def step_defs new_events_def Let_def
             split: if_splits prod.splits option.splits sum.splits)
qed

lemma analysis_lock_failed_hit:
  assumes r: "GetAndCreateWorkflowExecution ev ctx d ex s = (res, s')"
    and l: "LockEv c (Some e) \<in> set (new_events s s')"
  shows "\<exists>pre runID en. new_events s s' =
           pre @ [LockEv c (Some e),
                  ReleaseEv (NewWorkflowIdentifier d (WorkflowID ex) runID),
                  IncCounter HistoryCacheGetAndCreateScope CacheFailures,
                  IncCounter HistoryCacheGetAndCreateScope AcquireLockFailedCounter,
                  StopTimer HistoryCacheGetAndCreateScope CacheLatency]
           \<and> map_of (entries (lruCache s)) (NewWorkflowIdentifier d (WorkflowID ex) runID) = Some en
           \<and> entry_value en = c"
proof -
  let ?s1 = "emit (StartTimer HistoryCacheGetAndCreateScope CacheLatency)
               (emit (IncCounter HistoryCacheGetAndCreateScope CacheRequests) s)"
  obtain oe ex1 s2 where v: "validateWorkflowExecutionInfo ev ctx d ex ?s1 = ((oe, ex1), s2)"
    by (metis surj_pair)
  from validate_trace [OF v] obtain xs where
    xs: "trace s2 = trace s @ IncCounter HistoryCacheGetAndCreateScope CacheRequests
                     # StartTimer HistoryCacheGetAndCreateScope CacheLatency # xs"
        "\<forall>c r. LockEv c r \<notin> set xs"
    by auto
  note fr = validate_frame [OF v]
  have ok: "oe = None \<longrightarrow> WorkflowID ex1 = WorkflowID ex"
    using validate_ok [of ev ctx d ex ?s1 ex1 s2] v by auto
  let ?key = "NewWorkflowIdentifier d (WorkflowID ex) (RunID ex1)"
  have step: "fst (lru_Get ?key (clock s2) (lruCache s)) = Some c
      \<and> new_events s s' =
           (IncCounter HistoryCacheGetAndCreateScope CacheRequests
             # StartTimer HistoryCacheGetAndCreateScope CacheLatency # xs @ [GetEv ?key])
           @ [LockEv c (Some e), ReleaseEv ?key,
              IncCounter HistoryCacheGetAndCreateScope CacheFailures,
              IncCounter HistoryCacheGetAndCreateScope AcquireLockFailedCounter,
              StopTimer HistoryCacheGetAndCreateScope CacheLatency]"
    using r l v xs ok fr(1)
    by (auto simp: GetAndCreateWorkflowExecution_def step_defs new_events_def Let_def
             split: if_splits prod.splits option.splits sum.splits)
  then obtain en where "map_of (entries (lruCache s)) ?key = Some en" "entry_value en = c"
    using Get_hit by blast
  with step show ?thesis
    by blast
qed


text \<open>
  Claim C6. For every acquisition (through \<^verbatim>\<open>getOrCreateWorkflowExecutionInternal\<close> or the
  cache-hit branch of \<^verbatim>\<open>GetAndCreateWorkflowExecution\<close>) whose \<^verbatim>\<open>Context.Lock(ctx)\<close> fails
  because cancellation fires before the lock is acquired, the facade calls \<^verbatim>\<open>Release(Key)\<close>
  to undo the pin taken during lookup or insert, returns the cancellation error, and
  returns no Context and no release handle; the net pin count is unchanged from before
  the call. A call during which \<^verbatim>\<open>Lock\<close> was called on a Context \<open>c\<close> and returned the error
  \<open>e\<close> (the event \<open>LockEv c (Some e)\<close> is among the calls it made): it returns \<^verbatim>\<open>nil\<close> for
  the Context(s) and for the handle and returns \<open>e\<close>; \<^verbatim>\<open>Lock\<close> was called once, and what
  follows it is \<^verbatim>\<open>Release\<close> of the key, the two failure counters and the stop of the
  timer; and every key of the map has the pin count it had before the call (the map has
  one entry for a key, the invariant of claim C3).
\<close>

theorem lock_cancelled_undoes_pin:
  "(getOrCreateWorkflowExecutionInternal ev ctx domainID execution scp forceClearContext callerScope s = (res, s')
      \<and> LockEv c (Some e) \<in> set (new_events s s')
      \<and> distinct (keys_of (lruCache s)) \<longrightarrow>
        res = (None, None, Some e)
        \<and> (\<exists>pre dn. new_events s s' =
               pre @ [LockEv c (Some e),
                      ReleaseEv (NewWorkflowIdentifier domainID (WorkflowID execution) (RunID execution)),
                      IncCounter scp CacheFailures, IncCounter scp AcquireLockFailedCounter,
                      ScopeStopTimer callerScope dn LockWaitLatency]
               \<and> (\<forall>c' r. LockEv c' r \<notin> set pre))
        \<and> (\<forall>k. pin_count (lruCache s') k = pin_count (lruCache s) k))
   \<and> (GetAndCreateWorkflowExecution ev ctx domainID execution s = (res2, s2)
      \<and> LockEv c (Some e) \<in> set (new_events s s2) \<longrightarrow>
        res2 = (None, None, None, False, Some e)
        \<and> (\<exists>pre runID. new_events s s2 =
               pre @ [LockEv c (Some e),
                      ReleaseEv (NewWorkflowIdentifier domainID (WorkflowID execution) runID),
                      IncCounter HistoryCacheGetAndCreateScope CacheFailures,
                      IncCounter HistoryCacheGetAndCreateScope AcquireLockFailedCounter,
                      StopTimer HistoryCacheGetAndCreateScope CacheLatency]
               \<and> (\<forall>c' r. LockEv c' r \<notin> set pre)
               \<and> (RunID execution \<noteq> [] \<longrightarrow> runID = RunID execution))
        \<and> (\<forall>k. pin_count (lruCache s2) k = pin_count (lruCache s) k))"
proof (intro conjI impI; (elim conjE)?)
  assume a: "getOrCreateWorkflowExecutionInternal ev ctx domainID execution scp forceClearContext callerScope s = (res, s')"
    "LockEv c (Some e) \<in> set (new_events s s')" "distinct (keys_of (lruCache s))"
  show "res = (None, None, Some e)"
    using a(1,2) by (rule internal_lock_failed_result)
  show "\<exists>pre dn. new_events s s' =
               pre @ [LockEv c (Some e),
                      ReleaseEv (NewWorkflowIdentifier domainID (WorkflowID execution) (RunID execution)),
                      IncCounter scp CacheFailures, IncCounter scp AcquireLockFailedCounter,
                      ScopeStopTimer callerScope dn LockWaitLatency]
               \<and> (\<forall>c' r. LockEv c' r \<notin> set pre)"
    using a(1,2) by (rule internal_lock_failed_events)
  show "\<forall>k. pin_count (lruCache s') k = pin_count (lruCache s) k"
    using internal_lock_failed_pins [OF a] by blast
next
  assume a: "GetAndCreateWorkflowExecution ev ctx domainID execution s = (res2, s2)"
    "LockEv c (Some e) \<in> set (new_events s s2)"
  show "res2 = (None, None, None, False, Some e)"
    using a by (rule analysis_lock_failed(1))
  show "\<exists>pre runID. new_events s s2 =
               pre @ [LockEv c (Some e),
                      ReleaseEv (NewWorkflowIdentifier domainID (WorkflowID execution) runID),
                      IncCounter HistoryCacheGetAndCreateScope CacheFailures,
                      IncCounter HistoryCacheGetAndCreateScope AcquireLockFailedCounter,
                      StopTimer HistoryCacheGetAndCreateScope CacheLatency]
               \<and> (\<forall>c' r. LockEv c' r \<notin> set pre)
               \<and> (RunID execution \<noteq> [] \<longrightarrow> runID = RunID execution)"
    using a by (rule analysis_lock_failed(3))
  show "\<forall>k. pin_count (lruCache s2) k = pin_count (lruCache s) k"
    using analysis_lock_failed(4) [OF a] by blast
qed

theorem lock_cancelled_undoes_pin_witness:
  "LockEv 0 (Some DeadlineExceeded) \<in> set (new_events (snd acquired) (snd blocked_internal))
   \<and> distinct (keys_of (lruCache (snd acquired)))
   \<and> fst blocked_internal = (None, None, Some DeadlineExceeded)
   \<and> pin_count (lruCache (snd acquired)) key9 = 1
   \<and> pin_count (lruCache (snd blocked_internal)) key9 = pin_count (lruCache (snd acquired)) key9
   \<and> LockEv 0 (Some DeadlineExceeded) \<in> set (new_events (snd acquired) (snd blocked_analysis))
   \<and> fst blocked_analysis = (None, None, None, False, Some DeadlineExceeded)
   \<and> pin_count (lruCache (snd blocked_analysis)) key9 = pin_count (lruCache (snd acquired)) key9"
proof -
  have l1: "LockEv 0 (Some DeadlineExceeded) \<in> set (new_events (snd acquired) (snd blocked_internal))"
    by (simp add: blocked_internal_events)
  have l2: "LockEv 0 (Some DeadlineExceeded) \<in> set (new_events (snd acquired) (snd blocked_analysis))"
    by (simp add: blocked_analysis_events)
  have p: "pin_count (lruCache (snd acquired)) key9 = 1"
    by (simp add: acquired_cache pin_count_def)
  from lock_cancelled_undoes_pin [where ev = env_cancelled and ctx = "WithDeadline 5" and domainID = "''d1''"
      and execution = "\<lparr>WorkflowID = ''w1'', RunID = ''r9''\<rparr>" and scp = HistoryCacheGetOrCreateScope
      and forceClearContext = False and callerScope = "OtherScope 8" and s = "snd acquired"
      and res = "(None, None, Some DeadlineExceeded)" and s' = "snd blocked_internal"
      and c = 0 and e = DeadlineExceeded]
    blocked_internal_eq l1 acquired_distinct
  have a: "pin_count (lruCache (snd blocked_internal)) key9 = pin_count (lruCache (snd acquired)) key9"
    by blast
  from lock_cancelled_undoes_pin [where ev = env_cancelled and ctx = "WithDeadline 5" and domainID = "''d1''"
      and execution = "\<lparr>WorkflowID = ''w1'', RunID = []\<rparr>" and s = "snd acquired"
      and ?res2.0 = "(None, None, None, False, Some DeadlineExceeded)" and ?s2.0 = "snd blocked_analysis"
      and c = 0 and e = DeadlineExceeded]
    blocked_analysis_eq l2
  have b: "pin_count (lruCache (snd blocked_analysis)) key9 = pin_count (lruCache (snd acquired)) key9"
    by blast
  from l1 l2 p a b acquired_distinct blocked_internal_result blocked_analysis_result show ?thesis
    by blast
qed

text \<open>
  Claim C10. For every call to \<^verbatim>\<open>GetAndCreateWorkflowExecution\<close> where the key is present in
  the cache but \<^verbatim>\<open>Context.Lock(ctx)\<close> fails, the function returns the error with all other
  results as zero values: cached Context nil, fresh Context nil (no uncached Context is
  constructed on this path), release handle nil and hit false, after releasing the pin
  acquired by the lookup. When \<^verbatim>\<open>Lock\<close> on \<open>c\<close> returned \<open>e\<close> during the call: the result is
  \<open>(nil, nil, nil, false, e)\<close>, the heap of Contexts is the one before the call, \<open>c\<close> is
  the Context the map held for the key, \<^verbatim>\<open>Release\<close> of that key follows the failed
  \<^verbatim>\<open>Lock\<close>, and the key has the pin count it had before the call.
\<close>

theorem analysis_lock_failed_returns_nothing:
  "GetAndCreateWorkflowExecution ev ctx domainID execution s = (res, s')
     \<and> LockEv c (Some e) \<in> set (new_events s s') \<longrightarrow>
       res = (None, None, None, False, Some e)
       \<and> contexts s' = contexts s
       \<and> (\<exists>pre runID en.
             new_events s s' =
               pre @ [LockEv c (Some e),
                      ReleaseEv (NewWorkflowIdentifier domainID (WorkflowID execution) runID),
                      IncCounter HistoryCacheGetAndCreateScope CacheFailures,
                      IncCounter HistoryCacheGetAndCreateScope AcquireLockFailedCounter,
                      StopTimer HistoryCacheGetAndCreateScope CacheLatency]
             \<and> map_of (entries (lruCache s)) (NewWorkflowIdentifier domainID (WorkflowID execution) runID) = Some en
             \<and> entry_value en = c
             \<and> pin_count (lruCache s') (NewWorkflowIdentifier domainID (WorkflowID execution) runID) = pinCount en)"
proof (intro impI, elim conjE)
  assume a: "GetAndCreateWorkflowExecution ev ctx domainID execution s = (res, s')"
    "LockEv c (Some e) \<in> set (new_events s s')"
  from analysis_lock_failed_hit [OF a] obtain pre runID en where
    h: "new_events s s' =
               pre @ [LockEv c (Some e),
                      ReleaseEv (NewWorkflowIdentifier domainID (WorkflowID execution) runID),
                      IncCounter HistoryCacheGetAndCreateScope CacheFailures,
                      IncCounter HistoryCacheGetAndCreateScope AcquireLockFailedCounter,
                      StopTimer HistoryCacheGetAndCreateScope CacheLatency]"
       "map_of (entries (lruCache s)) (NewWorkflowIdentifier domainID (WorkflowID execution) runID) = Some en"
       "entry_value en = c"
    by blast
  have "pin_count (lruCache s') (NewWorkflowIdentifier domainID (WorkflowID execution) runID) = pinCount en"
    using analysis_lock_failed(4) [OF a] h(2) by (simp add: pin_count_def)
  with h analysis_lock_failed(1,2) [OF a]
  show "res = (None, None, None, False, Some e)
       \<and> contexts s' = contexts s
       \<and> (\<exists>pre runID en.
             new_events s s' =
               pre @ [LockEv c (Some e),
                      ReleaseEv (NewWorkflowIdentifier domainID (WorkflowID execution) runID),
                      IncCounter HistoryCacheGetAndCreateScope CacheFailures,
                      IncCounter HistoryCacheGetAndCreateScope AcquireLockFailedCounter,
                      StopTimer HistoryCacheGetAndCreateScope CacheLatency]
             \<and> map_of (entries (lruCache s)) (NewWorkflowIdentifier domainID (WorkflowID execution) runID) = Some en
             \<and> entry_value en = c
             \<and> pin_count (lruCache s') (NewWorkflowIdentifier domainID (WorkflowID execution) runID) = pinCount en)"
    by blast
qed

theorem analysis_lock_failed_returns_nothing_witness:
  "GetAndCreateWorkflowExecution env_cancelled (WithDeadline 5) ''d1''
       \<lparr>WorkflowID = ''w1'', RunID = []\<rparr> (snd acquired) =
     ((None, None, None, False, Some DeadlineExceeded), snd blocked_analysis)
   \<and> LockEv 0 (Some DeadlineExceeded) \<in> set (new_events (snd acquired) (snd blocked_analysis))
   \<and> contexts (snd blocked_analysis) = contexts (snd acquired)
   \<and> ReleaseEv key9 \<in> set (new_events (snd acquired) (snd blocked_analysis))
   \<and> pin_count (lruCache (snd blocked_analysis)) key9 = 1"
proof -
  have l2: "LockEv 0 (Some DeadlineExceeded) \<in> set (new_events (snd acquired) (snd blocked_analysis))"
    by (simp add: blocked_analysis_events)
  from analysis_lock_failed_returns_nothing [where ev = env_cancelled and ctx = "WithDeadline 5"
      and domainID = "''d1''" and execution = "\<lparr>WorkflowID = ''w1'', RunID = []\<rparr>" and s = "snd acquired"
      and res = "(None, None, None, False, Some DeadlineExceeded)" and s' = "snd blocked_analysis"
      and c = 0 and e = DeadlineExceeded]
    blocked_analysis_eq l2
  have "contexts (snd blocked_analysis) = contexts (snd acquired)"
    by blast
  with l2 blocked_analysis_eq show ?thesis
    by (simp add: blocked_analysis_events blocked_analysis_cache pin_count_def)
qed

subsection \<open>Calling the release handle\<close>



text \<open>
  Claim C4 says that a fault (panic) raised inside the locked region and reaching the
  release handle makes the handle call \<^verbatim>\<open>Context.Clear()\<close>, then \<^verbatim>\<open>Context.Unlock()\<close>, then
  \<^verbatim>\<open>Release(key)\<close>, in that order, and raise the same fault value again. The closure has
  a branch that does so, under \<^verbatim>\<open>rec := recover(); rec != nil\<close>, but its \<^verbatim>\<open>recover()\<close> is
  called by a function deferred inside the handle, where it returns \<^verbatim>\<open>nil\<close> for a panic of
  the caller: the branch is never taken. The first call of a handle (its status is still
  \<^verbatim>\<open>cacheNotReleased\<close>) while the fault \<open>f\<close> is in flight does what a call without a fault
  does: Clear only if \<^verbatim>\<open>err\<close> is not nil or the handle is force-clear, the sleep of the
  canary domain, Unlock, the record of the lock-hold timer and Release of the key; \<open>f\<close>
  stays in flight, recovered by nothing. With a nil \<^verbatim>\<open>err\<close> on the handle of
  \<^verbatim>\<open>GetOrCreateWorkflowExecution\<close>, the Context is unlocked and unpinned without Clear.
\<close>

theorem release_with_panic_in_flight:
  "statuses s a = cacheNotReleased \<Longrightarrow>
   call_ReleaseFunc (ReleaseClosure key c force cs dn start a) err (Some f) s =
     (Some f,
      s\<lparr>lruCache := lru_Release key (clock s + (case canary_delay dn cs of None \<Rightarrow> 0 | Some d \<Rightarrow> d)) (lruCache s),
        clock := clock s + (case canary_delay dn cs of None \<Rightarrow> 0 | Some d \<Rightarrow> d),
        statuses := (statuses s)(a := cacheReleased),
        trace := trace s @ (if err \<noteq> None \<or> force then [ClearEv c] else [])
                   @ (case canary_delay dn cs of None \<Rightarrow> [] | Some d \<Rightarrow> [SleepEv d])
                   @ [UnlockEv c,
                      RecordTimer cs dn LockHoldLatency
                        (clock s + (case canary_delay dn cs of None \<Rightarrow> 0 | Some d \<Rightarrow> d) - start),
                      ReleaseEv key]\<rparr>)"
  by (rule first_call)

theorem release_with_panic_in_flight_witness:
  "statuses (snd acquired) 0 = cacheNotReleased
   \<and> fst (call_ReleaseFunc handle9 None (Some ''boom'') (snd acquired)) = Some ''boom''
   \<and> new_events (snd acquired) (snd (call_ReleaseFunc handle9 None (Some ''boom'') (snd acquired))) =
       [UnlockEv 0, RecordTimer (OtherScope 7) ''dom'' LockHoldLatency 0, ReleaseEv key9]
   \<and> ClearEv 0 \<notin> set (trace (snd (call_ReleaseFunc handle9 None (Some ''boom'') (snd acquired))))
   \<and> pin_count (lruCache (snd (call_ReleaseFunc handle9 None (Some ''boom'') (snd acquired)))) key9 = 0"
proof -
  note t = release_with_panic_in_flight [OF acquired_status,
      of key9 0 False "OtherScope 7" "''dom''" 0 None "''boom''"]
  have tr: "ClearEv 0 \<notin> set (trace (snd acquired))"
    by (simp add: acquired_def facade_defs Let_def)
  from t tr show ?thesis
    by (simp add: handle9_def acquired_status acquired_cache acquired_clock new_events_def
          pin_count_def lru_Release_def expired_def canary_delay_def del: call_ReleaseFunc.simps)
qed



subsection \<open>Validation\<close>

lemma validate_bad_input:
  assumes "WorkflowID ex = [] \<or> (RunID ex \<noteq> [] \<and> uuid_Parse ev (RunID ex) = None)"
  shows "validateWorkflowExecutionInfo ev ctx d ex s =
     ((Some (BadRequestError
         (if WorkflowID ex = [] then ''Can'' @ [CHR 0x27] @ ''t load workflow execution.  WorkflowId not set.''
          else ''RunID is not valid UUID.'')), ex), s)"
  using assms by (auto simp: validateWorkflowExecutionInfo_def)

text \<open>
  Claim C7. For every call to \<^verbatim>\<open>GetOrCreateWorkflowExecution\<close> or
  \<^verbatim>\<open>GetAndCreateWorkflowExecution\<close>: if the workflow id is empty it fails with a bad-request
  error; if the run id is not empty and not a well-formed UUID (\<^verbatim>\<open>uuid.Parse\<close> returns nil)
  it fails with the bad-request error "RunID is not valid UUID" (the message of the code
  ends with a full stop); in both cases no Context is constructed, the map is not
  mutated, and no Context or release handle is returned. The workflow id is checked
  first, so an empty workflow id gives its own message whatever the run id is. The calls
  made are the request counter, the timer, the failure counter and the stop of the timer,
  and nothing else.
\<close>

theorem bad_input_rejected:
  "WorkflowID execution = [] \<or> (RunID execution \<noteq> [] \<and> uuid_Parse ev (RunID execution) = None) \<longrightarrow>
     (\<exists>msg.
        fst (GetOrCreateWorkflowExecution ev ctx domainID execution callerScope s) =
          (None, None, Some (BadRequestError msg))
        \<and> fst (GetAndCreateWorkflowExecution ev ctx domainID execution s) =
          (None, None, None, False, Some (BadRequestError msg))
        \<and> (WorkflowID execution = [] \<longrightarrow>
              msg = ''Can'' @ [CHR 0x27] @ ''t load workflow execution.  WorkflowId not set.'')
        \<and> (WorkflowID execution \<noteq> [] \<longrightarrow> msg = ''RunID is not valid UUID.''))
     \<and> lruCache (snd (GetOrCreateWorkflowExecution ev ctx domainID execution callerScope s)) = lruCache s
     \<and> contexts (snd (GetOrCreateWorkflowExecution ev ctx domainID execution callerScope s)) = contexts s
     \<and> new_events s (snd (GetOrCreateWorkflowExecution ev ctx domainID execution callerScope s)) =
          [IncCounter HistoryCacheGetOrCreateScope CacheRequests,
           StartTimer HistoryCacheGetOrCreateScope CacheLatency,
           IncCounter HistoryCacheGetOrCreateScope CacheFailures,
           StopTimer HistoryCacheGetOrCreateScope CacheLatency]
     \<and> lruCache (snd (GetAndCreateWorkflowExecution ev ctx domainID execution s)) = lruCache s
     \<and> contexts (snd (GetAndCreateWorkflowExecution ev ctx domainID execution s)) = contexts s
     \<and> new_events s (snd (GetAndCreateWorkflowExecution ev ctx domainID execution s)) =
          [IncCounter HistoryCacheGetAndCreateScope CacheRequests,
           StartTimer HistoryCacheGetAndCreateScope CacheLatency,
           IncCounter HistoryCacheGetAndCreateScope CacheFailures,
           StopTimer HistoryCacheGetAndCreateScope CacheLatency]"
proof
  assume a: "WorkflowID execution = [] \<or> (RunID execution \<noteq> [] \<and> uuid_Parse ev (RunID execution) = None)"
  note v = validate_bad_input [OF a]
  show "(\<exists>msg.
        fst (GetOrCreateWorkflowExecution ev ctx domainID execution callerScope s) =
          (None, None, Some (BadRequestError msg))
        \<and> fst (GetAndCreateWorkflowExecution ev ctx domainID execution s) =
          (None, None, None, False, Some (BadRequestError msg))
        \<and> (WorkflowID execution = [] \<longrightarrow>
              msg = ''Can'' @ [CHR 0x27] @ ''t load workflow execution.  WorkflowId not set.'')
        \<and> (WorkflowID execution \<noteq> [] \<longrightarrow> msg = ''RunID is not valid UUID.''))
     \<and> lruCache (snd (GetOrCreateWorkflowExecution ev ctx domainID execution callerScope s)) = lruCache s
     \<and> contexts (snd (GetOrCreateWorkflowExecution ev ctx domainID execution callerScope s)) = contexts s
     \<and> new_events s (snd (GetOrCreateWorkflowExecution ev ctx domainID execution callerScope s)) =
          [IncCounter HistoryCacheGetOrCreateScope CacheRequests,
           StartTimer HistoryCacheGetOrCreateScope CacheLatency,
           IncCounter HistoryCacheGetOrCreateScope CacheFailures,
           StopTimer HistoryCacheGetOrCreateScope CacheLatency]
     \<and> lruCache (snd (GetAndCreateWorkflowExecution ev ctx domainID execution s)) = lruCache s
     \<and> contexts (snd (GetAndCreateWorkflowExecution ev ctx domainID execution s)) = contexts s
     \<and> new_events s (snd (GetAndCreateWorkflowExecution ev ctx domainID execution s)) =
          [IncCounter HistoryCacheGetAndCreateScope CacheRequests,
           StartTimer HistoryCacheGetAndCreateScope CacheLatency,
           IncCounter HistoryCacheGetAndCreateScope CacheFailures,
           StopTimer HistoryCacheGetAndCreateScope CacheLatency]"
    by (simp add: GetOrCreateWorkflowExecution_def GetAndCreateWorkflowExecution_def v Let_def
          new_events_def)
qed

theorem bad_input_rejected_witness:
  "RunID bad_run \<noteq> [] \<and> uuid_Parse env_ok (RunID bad_run) = None
   \<and> fst (GetOrCreateWorkflowExecution env_ok Background ''d1'' bad_run (OtherScope 7) (NewCache config0)) =
       (None, None, Some (BadRequestError ''RunID is not valid UUID.''))
   \<and> fst (GetAndCreateWorkflowExecution env_ok Background ''d1'' bad_run (NewCache config0)) =
       (None, None, None, False, Some (BadRequestError ''RunID is not valid UUID.''))
   \<and> lruCache (snd (GetOrCreateWorkflowExecution env_ok Background ''d1'' bad_run (OtherScope 7) (NewCache config0))) =
       lruCache (NewCache config0)
   \<and> contexts (snd (GetOrCreateWorkflowExecution env_ok Background ''d1'' bad_run (OtherScope 7) (NewCache config0))) = []
   \<and> fst (GetOrCreateWorkflowExecution env_ok Background ''d1'' \<lparr>WorkflowID = [], RunID = []\<rparr> (OtherScope 7) (NewCache config0)) =
       (None, None, Some (BadRequestError (''Can'' @ [CHR 0x27] @ ''t load workflow execution.  WorkflowId not set.'')))"
  using bad_input_rejected [of bad_run env_ok Background "''d1''" "OtherScope 7" "NewCache config0"]
    bad_input_rejected [of "\<lparr>WorkflowID = [], RunID = []\<rparr>" env_ok Background "''d1''" "OtherScope 7" "NewCache config0"]
  by (auto simp: bad_run_def env_ok_def NewCache_def)

subsection \<open>Resolution of the current run\<close>

lemma Do_result:
  "\<exists>j\<le>n.
      (\<forall>k<j. \<exists>e. GetCurrentExecution ev ctx (i + k) d w = Inl e \<and> IsTransientError e
              \<and> (\<forall>t cerr. ctx_end ctx = Some (t, cerr) \<longrightarrow>
                    clock s + (\<Sum>m = i..i + k. retry_backoff ev m) < t))
      \<and> length (filter (\<lambda>x. x = GetCurrentExecutionEv d w)
            (new_events s (snd (throttleRetry_Do ev ctx d w n i s)))) = Suc j
      \<and> (fst (throttleRetry_Do ev ctx d w n i s) = GetCurrentExecution ev ctx (i + j) d w
           \<and> (j < n \<longrightarrow> (\<forall>e. GetCurrentExecution ev ctx (i + j) d w = Inl e \<longrightarrow> \<not> IsTransientError e))
         \<or> j < n
           \<and> (\<exists>e t cerr. GetCurrentExecution ev ctx (i + j) d w = Inl e \<and> IsTransientError e
                 \<and> ctx_end ctx = Some (t, cerr)
                 \<and> t \<le> clock s + (\<Sum>m = i..i + j. retry_backoff ev m)
                 \<and> fst (throttleRetry_Do ev ctx d w n i s) = Inl cerr))"
  (is "\<exists>j\<le>n. ?P n i s j")
proof (induction n arbitrary: i s)
  case 0
  have "?P 0 i s 0" by (simp add: new_events_def)
  then show ?case by blast
next
  case (Suc n)
  let ?s1 = "emit (GetCurrentExecutionEv d w) s"
  show ?case
  proof (cases "GetCurrentExecution ev ctx i d w")
    case (Inr r)
    then have "?P (Suc n) i s 0" by (simp add: Let_def new_events_def)
    then show ?thesis by blast
  next
    case (Inl err)
    show ?thesis
    proof (cases "IsTransientError err")
      case False
      with Inl have "?P (Suc n) i s 0" by (simp add: Let_def new_events_def)
      then show ?thesis by blast
    next
      case True
      obtain r s2 where wt: "wait ctx (retry_backoff ev i) ?s1 = (r, s2)"
        by (metis surj_pair)
      from wait_frame(6) [OF wt] obtain x where
        x: "trace s2 = trace s @ [GetCurrentExecutionEv d w, SleepEv x]"
        by auto
      show ?thesis
      proof (cases r)
        case (Some cancelled)
        with wt obtain t where t: "ctx_end ctx = Some (t, cancelled)" "t \<le> clock s + retry_backoff ev i"
          by (auto simp: wait_Some)
        have unf: "throttleRetry_Do ev ctx d w (Suc n) i s = (Inl cancelled, s2)"
          using Inl True wt Some by (simp add: Let_def)
        have "?P (Suc n) i s 0"
          unfolding unf using Inl True t x by (simp add: new_events_def)
        then show ?thesis by blast
      next
        case None
        with wt have s2: "s2 = sleep (retry_backoff ev i) ?s1"
          and alive: "\<forall>t cerr. ctx_end ctx = Some (t, cerr) \<longrightarrow> clock s + retry_backoff ev i < t"
          by (auto simp: wait_None)
        have unf: "throttleRetry_Do ev ctx d w (Suc n) i s = throttleRetry_Do ev ctx d w n (Suc i) s2"
          using Inl True wt None by (simp add: Let_def)
        have shift: "\<And>k. clock s2 + (\<Sum>m = Suc i..Suc i + k. retry_backoff ev m) =
                        clock s + (\<Sum>m = i..i + Suc k. retry_backoff ev m)"
          by (simp add: s2 sum.atLeast_Suc_atMost [of i])
        from Suc [of "Suc i" s2] obtain j where j: "j \<le> n" "?P n (Suc i) s2 j"
          by blast
        from Do_trace [of ev ctx d w n "Suc i" s2] obtain xs where
          xs: "trace (snd (throttleRetry_Do ev ctx d w n (Suc i) s2)) = trace s2 @ xs"
          by blast
        have p1: "\<forall>k<Suc j. \<exists>e. GetCurrentExecution ev ctx (i + k) d w = Inl e \<and> IsTransientError e
              \<and> (\<forall>t cerr. ctx_end ctx = Some (t, cerr) \<longrightarrow>
                    clock s + (\<Sum>m = i..i + k. retry_backoff ev m) < t)"
        proof (intro allI impI)
          fix k assume k: "k < Suc j"
          show "\<exists>e. GetCurrentExecution ev ctx (i + k) d w = Inl e \<and> IsTransientError e
              \<and> (\<forall>t cerr. ctx_end ctx = Some (t, cerr) \<longrightarrow>
                    clock s + (\<Sum>m = i..i + k. retry_backoff ev m) < t)"
          proof (cases k)
            case 0
            with Inl True alive show ?thesis by simp
          next
            case (Suc k')
            with k have "k' < j" by simp
            with j(2) obtain e where e: "GetCurrentExecution ev ctx (Suc i + k') d w = Inl e" "IsTransientError e"
              "\<forall>t cerr. ctx_end ctx = Some (t, cerr) \<longrightarrow>
                    clock s2 + (\<Sum>m = Suc i..Suc i + k'. retry_backoff ev m) < t"
              by blast
            have idx: "i + k = Suc i + k'"
              using Suc by simp
            have tm: "clock s + (\<Sum>m = i..i + k. retry_backoff ev m) =
                        clock s2 + (\<Sum>m = Suc i..Suc i + k'. retry_backoff ev m)"
              unfolding Suc by (rule shift [symmetric])
            have A: "\<forall>t cerr. ctx_end ctx = Some (t, cerr) \<longrightarrow>
                    clock s + (\<Sum>m = i..i + k. retry_backoff ev m) < t"
              using e(3) by (simp only: tm)
            have B: "GetCurrentExecution ev ctx (i + k) d w = Inl e"
              using e(1) by (simp only: idx)
            from A B e(2) show ?thesis by blast
          qed
        qed
        have p2: "length (filter (\<lambda>x. x = GetCurrentExecutionEv d w)
            (new_events s (snd (throttleRetry_Do ev ctx d w (Suc n) i s)))) = Suc (Suc j)"
          unfolding unf using j(2) xs x by (simp add: new_events_def)
        have p3: "fst (throttleRetry_Do ev ctx d w (Suc n) i s) = GetCurrentExecution ev ctx (i + Suc j) d w
           \<and> (Suc j < Suc n \<longrightarrow> (\<forall>e. GetCurrentExecution ev ctx (i + Suc j) d w = Inl e \<longrightarrow> \<not> IsTransientError e))
         \<or> Suc j < Suc n
           \<and> (\<exists>e t cerr. GetCurrentExecution ev ctx (i + Suc j) d w = Inl e \<and> IsTransientError e
                 \<and> ctx_end ctx = Some (t, cerr)
                 \<and> t \<le> clock s + (\<Sum>m = i..i + Suc j. retry_backoff ev m)
                 \<and> fst (throttleRetry_Do ev ctx d w (Suc n) i s) = Inl cerr)"
        proof -
          have idx: "i + Suc j = Suc i + j"
            by simp
          have tm: "clock s + (\<Sum>m = i..Suc i + j. retry_backoff ev m) =
                      clock s2 + (\<Sum>m = Suc i..Suc i + j. retry_backoff ev m)"
            using shift [of j, unfolded idx] by (rule sym)
          from j(2) have "fst (throttleRetry_Do ev ctx d w n (Suc i) s2) = GetCurrentExecution ev ctx (Suc i + j) d w
           \<and> (j < n \<longrightarrow> (\<forall>e. GetCurrentExecution ev ctx (Suc i + j) d w = Inl e \<longrightarrow> \<not> IsTransientError e))
         \<or> j < n
           \<and> (\<exists>e t cerr. GetCurrentExecution ev ctx (Suc i + j) d w = Inl e \<and> IsTransientError e
                 \<and> ctx_end ctx = Some (t, cerr)
                 \<and> t \<le> clock s2 + (\<Sum>m = Suc i..Suc i + j. retry_backoff ev m)
                 \<and> fst (throttleRetry_Do ev ctx d w n (Suc i) s2) = Inl cerr)"
            by blast
          then show ?thesis
            by (simp only: unf tm idx Suc_less_eq)
        qed
        from j(1) p1 p2 p3 have "Suc j \<le> Suc n \<and> ?P (Suc n) i s (Suc j)"
          by blast
        then show ?thesis by blast
      qed
    qed
  qed
qed

lemma resolve_result:
  "\<exists>j\<le>retry_maxRetries ev.
      (\<forall>k<j. \<exists>e. GetCurrentExecution ev ctx k d w = Inl e \<and> IsTransientError e
              \<and> (\<forall>t cerr. ctx_end ctx = Some (t, cerr) \<longrightarrow>
                    clock s + (\<Sum>m = 0..k. retry_backoff ev m) < t))
      \<and> length (filter (\<lambda>x. x = GetCurrentExecutionEv d w)
            (new_events s (snd (getCurrentExecutionWithRetry ev ctx d w s)))) = Suc j
      \<and> (fst (getCurrentExecutionWithRetry ev ctx d w s) = GetCurrentExecution ev ctx j d w
           \<and> (j < retry_maxRetries ev \<longrightarrow>
                (\<forall>e. GetCurrentExecution ev ctx j d w = Inl e \<longrightarrow> \<not> IsTransientError e))
         \<or> j < retry_maxRetries ev
           \<and> (\<exists>e t cerr. GetCurrentExecution ev ctx j d w = Inl e \<and> IsTransientError e
                 \<and> ctx_end ctx = Some (t, cerr)
                 \<and> t \<le> clock s + (\<Sum>m = 0..j. retry_backoff ev m)
                 \<and> fst (getCurrentExecutionWithRetry ev ctx d w s) = Inl cerr))"
proof -
  let ?s2 = "emit (StartTimer HistoryCacheGetCurrentExecutionScope CacheLatency)
               (emit (IncCounter HistoryCacheGetCurrentExecutionScope CacheRequests) s)"
  let ?r = "throttleRetry_Do ev ctx d w (retry_maxRetries ev) 0 ?s2"
  from Do_result [of "retry_maxRetries ev" ev ctx 0 d w ?s2] obtain j where
    j: "j \<le> retry_maxRetries ev"
       "\<forall>k<j. \<exists>e. GetCurrentExecution ev ctx k d w = Inl e \<and> IsTransientError e
              \<and> (\<forall>t cerr. ctx_end ctx = Some (t, cerr) \<longrightarrow>
                    clock s + (\<Sum>m = 0..k. retry_backoff ev m) < t)"
       "length (filter (\<lambda>x. x = GetCurrentExecutionEv d w) (new_events ?s2 (snd ?r))) = Suc j"
       "fst ?r = GetCurrentExecution ev ctx j d w
           \<and> (j < retry_maxRetries ev \<longrightarrow>
                (\<forall>e. GetCurrentExecution ev ctx j d w = Inl e \<longrightarrow> \<not> IsTransientError e))
         \<or> j < retry_maxRetries ev
           \<and> (\<exists>e t cerr. GetCurrentExecution ev ctx j d w = Inl e \<and> IsTransientError e
                 \<and> ctx_end ctx = Some (t, cerr)
                 \<and> t \<le> clock s + (\<Sum>m = 0..j. retry_backoff ev m)
                 \<and> fst ?r = Inl cerr)"
    by auto
  from Do_trace [of ev ctx d w "retry_maxRetries ev" 0 ?s2] obtain xs where
    xs: "trace (snd ?r) = trace ?s2 @ xs"
    by blast
  have f: "fst (getCurrentExecutionWithRetry ev ctx d w s) = fst ?r"
    by (simp add: getCurrentExecutionWithRetry_def Let_def split: sum.splits)
  have c: "length (filter (\<lambda>x. x = GetCurrentExecutionEv d w)
            (new_events s (snd (getCurrentExecutionWithRetry ev ctx d w s)))) = Suc j"
    using j(3) xs
    by (simp add: getCurrentExecutionWithRetry_def Let_def new_events_def split: sum.splits)
  from j(1,2,4) c show ?thesis
    unfolding f by blast
qed

lemma resolve_Inr:
  assumes "fst (getCurrentExecutionWithRetry ev ctx d w s) = Inr r"
  shows "\<exists>j\<le>retry_maxRetries ev. GetCurrentExecution ev ctx j d w = Inr r"
  using resolve_result [of ev ctx d w s] assms by auto

lemma getOrCreate_resolved:
  assumes "WorkflowID ex \<noteq> []" "RunID ex = []"
  shows "case getCurrentExecutionWithRetry ev ctx d (WorkflowID ex)
                (emit (StartTimer HistoryCacheGetOrCreateScope CacheLatency)
                   (emit (IncCounter HistoryCacheGetOrCreateScope CacheRequests) s)) of
           (Inl err, s2) \<Rightarrow>
             GetOrCreateWorkflowExecution ev ctx d ex cs s =
               ((None, None, Some err),
                emit (StopTimer HistoryCacheGetOrCreateScope CacheLatency)
                  (emit (IncCounter HistoryCacheGetOrCreateScope CacheFailures) s2))
             \<and> lruCache s2 = lruCache s \<and> contexts s2 = contexts s
         | (Inr runID, s2) \<Rightarrow>
             GetOrCreateWorkflowExecution ev ctx d ex cs s =
               (case getOrCreateWorkflowExecutionInternal ev ctx d (ex\<lparr>RunID := runID\<rparr>)
                       HistoryCacheGetOrCreateScope False cs s2 of
                  (res, s3) \<Rightarrow> (res, emit (StopTimer HistoryCacheGetOrCreateScope CacheLatency) s3))"
proof -
  let ?s1 = "emit (StartTimer HistoryCacheGetOrCreateScope CacheLatency)
                   (emit (IncCounter HistoryCacheGetOrCreateScope CacheRequests) s)"
  have fr: "lruCache (snd (getCurrentExecutionWithRetry ev ctx d (WorkflowID ex) ?s1)) = lruCache s"
    "contexts (snd (getCurrentExecutionWithRetry ev ctx d (WorkflowID ex) ?s1)) = contexts s"
    by (simp_all add: resolve_frame)
  show ?thesis
    using assms fr
    by (auto simp: GetOrCreateWorkflowExecution_def validateWorkflowExecutionInfo_def Let_def
             split: sum.splits prod.splits)
qed

lemma getAndCreate_resolved:
  assumes "WorkflowID ex \<noteq> []" "RunID ex = []"
  shows "case getCurrentExecutionWithRetry ev ctx d (WorkflowID ex)
                (emit (StartTimer HistoryCacheGetAndCreateScope CacheLatency)
                   (emit (IncCounter HistoryCacheGetAndCreateScope CacheRequests) s)) of
           (Inl err, s2) \<Rightarrow>
             GetAndCreateWorkflowExecution ev ctx d ex s =
               ((None, None, None, False, Some err),
                emit (StopTimer HistoryCacheGetAndCreateScope CacheLatency)
                  (emit (IncCounter HistoryCacheGetAndCreateScope CacheFailures) s2))
             \<and> lruCache s2 = lruCache s \<and> contexts s2 = contexts s
         | (Inr runID, s2) \<Rightarrow>
             (\<forall>k. GetEv k \<in> set (new_events s (snd (GetAndCreateWorkflowExecution ev ctx d ex s)))
                   \<longleftrightarrow> k = NewWorkflowIdentifier d (WorkflowID ex) runID)"
proof -
  let ?s1 = "emit (StartTimer HistoryCacheGetAndCreateScope CacheLatency)
                   (emit (IncCounter HistoryCacheGetAndCreateScope CacheRequests) s)"
  let ?g = "getCurrentExecutionWithRetry ev ctx d (WorkflowID ex) ?s1"
  have fr: "lruCache (snd ?g) = lruCache s" "contexts (snd ?g) = contexts s"
    by (simp_all add: resolve_frame)
  from resolve_trace [of ev ctx d "WorkflowID ex" ?s1] obtain xs where
    xs: "trace (snd ?g) = trace s @ IncCounter HistoryCacheGetAndCreateScope CacheRequests
                     # StartTimer HistoryCacheGetAndCreateScope CacheLatency # xs"
        "\<forall>k. GetEv k \<notin> set xs"
    by auto
  show ?thesis
    using assms fr xs
    by (auto simp: GetAndCreateWorkflowExecution_def validateWorkflowExecutionInfo_def Let_def
                   step_defs new_events_def
             split: sum.splits prod.splits option.splits)
qed


text \<open>
  Claim C8. For every call to \<^verbatim>\<open>GetOrCreateWorkflowExecution\<close> or
  \<^verbatim>\<open>GetAndCreateWorkflowExecution\<close> with an empty run id, the current run is resolved by
  calling \<^verbatim>\<open>GetCurrentExecution\<close> through the retry executor (retrying only errors the
  predicate classifies as transient) and the returned run id is substituted into the
  execution before the key is formed; if resolution fails the error is propagated
  unchanged and the operation returns no Context.
  With a workflow id and no run id: storage is called \<open>j + 1\<close> times, within the policy's
  bound; every attempt before the last failed with a transient error and was followed
  by the whole backoff, the caller's scope outlasting it; and the last attempt either
  gives the resolver's result (before the bound only if it did not fail with a
  transient error), or failed with a transient error while the caller's scope ended
  before the backoff was over, and then the resolver returns the scope's error without
  another attempt. If the resolver fails with \<open>err\<close>, both operations
  return \<open>err\<close> and \<^verbatim>\<open>nil\<close> for everything else, and the map and the Contexts are as before.
  If it returns \<open>runID\<close>, \<^verbatim>\<open>GetOrCreateWorkflowExecution\<close> is
  \<^verbatim>\<open>getOrCreateWorkflowExecutionInternal\<close> on the execution with \<open>RunID := runID\<close>, and the
  one key \<^verbatim>\<open>GetAndCreateWorkflowExecution\<close> looks up is (domain, workflow, \<open>runID\<close>).
\<close>

theorem empty_runID_resolved:
  "WorkflowID execution \<noteq> [] \<and> RunID execution = [] \<longrightarrow>
     (\<exists>j\<le>retry_maxRetries ev.
        (\<forall>k<j. \<exists>e. GetCurrentExecution ev ctx k domainID (WorkflowID execution) = Inl e \<and> IsTransientError e
                \<and> (\<forall>t cerr. ctx_end ctx = Some (t, cerr) \<longrightarrow>
                      clock s0 + (\<Sum>m = 0..k. retry_backoff ev m) < t))
        \<and> length (filter (\<lambda>x. x = GetCurrentExecutionEv domainID (WorkflowID execution))
              (new_events s0 (snd (getCurrentExecutionWithRetry ev ctx domainID (WorkflowID execution) s0)))) = Suc j
        \<and> (fst (getCurrentExecutionWithRetry ev ctx domainID (WorkflowID execution) s0) =
              GetCurrentExecution ev ctx j domainID (WorkflowID execution)
             \<and> (j < retry_maxRetries ev \<longrightarrow>
                  (\<forall>e. GetCurrentExecution ev ctx j domainID (WorkflowID execution) = Inl e \<longrightarrow> \<not> IsTransientError e))
           \<or> j < retry_maxRetries ev
             \<and> (\<exists>e t cerr. GetCurrentExecution ev ctx j domainID (WorkflowID execution) = Inl e \<and> IsTransientError e
                   \<and> ctx_end ctx = Some (t, cerr)
                   \<and> t \<le> clock s0 + (\<Sum>m = 0..j. retry_backoff ev m)
                   \<and> fst (getCurrentExecutionWithRetry ev ctx domainID (WorkflowID execution) s0) = Inl cerr)))
     \<and> (case getCurrentExecutionWithRetry ev ctx domainID (WorkflowID execution)
                (emit (StartTimer HistoryCacheGetOrCreateScope CacheLatency)
                   (emit (IncCounter HistoryCacheGetOrCreateScope CacheRequests) s)) of
           (Inl err, s2) \<Rightarrow>
             GetOrCreateWorkflowExecution ev ctx domainID execution callerScope s =
               ((None, None, Some err),
                emit (StopTimer HistoryCacheGetOrCreateScope CacheLatency)
                  (emit (IncCounter HistoryCacheGetOrCreateScope CacheFailures) s2))
             \<and> lruCache s2 = lruCache s \<and> contexts s2 = contexts s
         | (Inr runID, s2) \<Rightarrow>
             GetOrCreateWorkflowExecution ev ctx domainID execution callerScope s =
               (case getOrCreateWorkflowExecutionInternal ev ctx domainID (execution\<lparr>RunID := runID\<rparr>)
                       HistoryCacheGetOrCreateScope False callerScope s2 of
                  (res, s3) \<Rightarrow> (res, emit (StopTimer HistoryCacheGetOrCreateScope CacheLatency) s3)))
     \<and> (case getCurrentExecutionWithRetry ev ctx domainID (WorkflowID execution)
                (emit (StartTimer HistoryCacheGetAndCreateScope CacheLatency)
                   (emit (IncCounter HistoryCacheGetAndCreateScope CacheRequests) s)) of
           (Inl err, s2) \<Rightarrow>
             GetAndCreateWorkflowExecution ev ctx domainID execution s =
               ((None, None, None, False, Some err),
                emit (StopTimer HistoryCacheGetAndCreateScope CacheLatency)
                  (emit (IncCounter HistoryCacheGetAndCreateScope CacheFailures) s2))
             \<and> lruCache s2 = lruCache s \<and> contexts s2 = contexts s
         | (Inr runID, s2) \<Rightarrow>
             (\<forall>k. GetEv k \<in> set (new_events s (snd (GetAndCreateWorkflowExecution ev ctx domainID execution s)))
                   \<longleftrightarrow> k = NewWorkflowIdentifier domainID (WorkflowID execution) runID))"
proof (intro impI conjI; elim conjE)
  assume a: "WorkflowID execution \<noteq> []" "RunID execution = []"
  show "\<exists>j\<le>retry_maxRetries ev.
        (\<forall>k<j. \<exists>e. GetCurrentExecution ev ctx k domainID (WorkflowID execution) = Inl e \<and> IsTransientError e
                \<and> (\<forall>t cerr. ctx_end ctx = Some (t, cerr) \<longrightarrow>
                      clock s0 + (\<Sum>m = 0..k. retry_backoff ev m) < t))
        \<and> length (filter (\<lambda>x. x = GetCurrentExecutionEv domainID (WorkflowID execution))
              (new_events s0 (snd (getCurrentExecutionWithRetry ev ctx domainID (WorkflowID execution) s0)))) = Suc j
        \<and> (fst (getCurrentExecutionWithRetry ev ctx domainID (WorkflowID execution) s0) =
              GetCurrentExecution ev ctx j domainID (WorkflowID execution)
             \<and> (j < retry_maxRetries ev \<longrightarrow>
                  (\<forall>e. GetCurrentExecution ev ctx j domainID (WorkflowID execution) = Inl e \<longrightarrow> \<not> IsTransientError e))
           \<or> j < retry_maxRetries ev
             \<and> (\<exists>e t cerr. GetCurrentExecution ev ctx j domainID (WorkflowID execution) = Inl e \<and> IsTransientError e
                   \<and> ctx_end ctx = Some (t, cerr)
                   \<and> t \<le> clock s0 + (\<Sum>m = 0..j. retry_backoff ev m)
                   \<and> fst (getCurrentExecutionWithRetry ev ctx domainID (WorkflowID execution) s0) = Inl cerr))"
    by (rule resolve_result)
  show "case getCurrentExecutionWithRetry ev ctx domainID (WorkflowID execution)
                (emit (StartTimer HistoryCacheGetOrCreateScope CacheLatency)
                   (emit (IncCounter HistoryCacheGetOrCreateScope CacheRequests) s)) of
           (Inl err, s2) \<Rightarrow>
             GetOrCreateWorkflowExecution ev ctx domainID execution callerScope s =
               ((None, None, Some err),
                emit (StopTimer HistoryCacheGetOrCreateScope CacheLatency)
                  (emit (IncCounter HistoryCacheGetOrCreateScope CacheFailures) s2))
             \<and> lruCache s2 = lruCache s \<and> contexts s2 = contexts s
         | (Inr runID, s2) \<Rightarrow>
             GetOrCreateWorkflowExecution ev ctx domainID execution callerScope s =
               (case getOrCreateWorkflowExecutionInternal ev ctx domainID (execution\<lparr>RunID := runID\<rparr>)
                       HistoryCacheGetOrCreateScope False callerScope s2 of
                  (res, s3) \<Rightarrow> (res, emit (StopTimer HistoryCacheGetOrCreateScope CacheLatency) s3))"
    using a by (rule getOrCreate_resolved)
  show "case getCurrentExecutionWithRetry ev ctx domainID (WorkflowID execution)
                (emit (StartTimer HistoryCacheGetAndCreateScope CacheLatency)
                   (emit (IncCounter HistoryCacheGetAndCreateScope CacheRequests) s)) of
           (Inl err, s2) \<Rightarrow>
             GetAndCreateWorkflowExecution ev ctx domainID execution s =
               ((None, None, None, False, Some err),
                emit (StopTimer HistoryCacheGetAndCreateScope CacheLatency)
                  (emit (IncCounter HistoryCacheGetAndCreateScope CacheFailures) s2))
             \<and> lruCache s2 = lruCache s \<and> contexts s2 = contexts s
         | (Inr runID, s2) \<Rightarrow>
             (\<forall>k. GetEv k \<in> set (new_events s (snd (GetAndCreateWorkflowExecution ev ctx domainID execution s)))
                   \<longleftrightarrow> k = NewWorkflowIdentifier domainID (WorkflowID execution) runID)"
    using a by (rule getAndCreate_resolved)
qed

lemmas scenario_defs = facade_defs env_flaky_def env_missing_def current_of_w1_def key9_def handle9_def

theorem empty_runID_resolved_witness:
  "WorkflowID current_of_w1 \<noteq> [] \<and> RunID current_of_w1 = []
   \<and> fst (GetOrCreateWorkflowExecution env_flaky Background ''d1'' current_of_w1 (OtherScope 7) (NewCache config0)) =
       fst (getOrCreateWorkflowExecutionInternal env_flaky Background ''d1'' \<lparr>WorkflowID = ''w1'', RunID = ''r9''\<rparr>
              HistoryCacheGetOrCreateScope False (OtherScope 7)
              (snd (getCurrentExecutionWithRetry env_flaky Background ''d1'' ''w1''
                 (emit (StartTimer HistoryCacheGetOrCreateScope CacheLatency)
                   (emit (IncCounter HistoryCacheGetOrCreateScope CacheRequests) (NewCache config0))))))
   \<and> keys_of (lruCache (snd (GetOrCreateWorkflowExecution env_flaky Background ''d1'' current_of_w1 (OtherScope 7) (NewCache config0)))) = [key9]
   \<and> length (filter (\<lambda>x. x = GetCurrentExecutionEv ''d1'' ''w1'')
        (trace (snd (GetOrCreateWorkflowExecution env_flaky Background ''d1'' current_of_w1 (OtherScope 7) (NewCache config0))))) = 2
   \<and> GetOrCreateWorkflowExecution env_missing Background ''d1'' current_of_w1 (OtherScope 7) (NewCache config0) =
       ((None, None, Some (PermanentStorage ''no current execution'')),
        (NewCache config0)\<lparr>trace :=
          [IncCounter HistoryCacheGetOrCreateScope CacheRequests,
           StartTimer HistoryCacheGetOrCreateScope CacheLatency,
           IncCounter HistoryCacheGetCurrentExecutionScope CacheRequests,
           StartTimer HistoryCacheGetCurrentExecutionScope CacheLatency,
           GetCurrentExecutionEv ''d1'' ''w1'',
           IncCounter HistoryCacheGetCurrentExecutionScope CacheFailures,
           StopTimer HistoryCacheGetCurrentExecutionScope CacheLatency,
           IncCounter HistoryCacheGetOrCreateScope CacheFailures,
           StopTimer HistoryCacheGetOrCreateScope CacheLatency]\<rparr>)
   \<and> GetOrCreateWorkflowExecution env_flaky (WithDeadline 5) ''d1'' current_of_w1 (OtherScope 7) (NewCache config0) =
       ((None, None, Some DeadlineExceeded),
        (NewCache config0)\<lparr>clock := 5, trace :=
          [IncCounter HistoryCacheGetOrCreateScope CacheRequests,
           StartTimer HistoryCacheGetOrCreateScope CacheLatency,
           IncCounter HistoryCacheGetCurrentExecutionScope CacheRequests,
           StartTimer HistoryCacheGetCurrentExecutionScope CacheLatency,
           GetCurrentExecutionEv ''d1'' ''w1'',
           SleepEv 5,
           IncCounter HistoryCacheGetCurrentExecutionScope CacheFailures,
           StopTimer HistoryCacheGetCurrentExecutionScope CacheLatency,
           IncCounter HistoryCacheGetOrCreateScope CacheFailures,
           StopTimer HistoryCacheGetOrCreateScope CacheLatency]\<rparr>)"
proof -
  have h: "WorkflowID current_of_w1 \<noteq> [] \<and> RunID current_of_w1 = []"
    by (simp add: current_of_w1_def)
  note t1 = empty_runID_resolved [where execution = current_of_w1 and ev = env_flaky and ctx = Background
      and domainID = "''d1''" and ?s0.0 = "NewCache config0" and s = "NewCache config0"
      and callerScope = "OtherScope 7", THEN mp, OF h, THEN conjunct2, THEN conjunct1]
  note t2 = empty_runID_resolved [where execution = current_of_w1 and ev = env_missing and ctx = Background
      and domainID = "''d1''" and ?s0.0 = "NewCache config0" and s = "NewCache config0"
      and callerScope = "OtherScope 7", THEN mp, OF h, THEN conjunct2, THEN conjunct1]
  note t3 = empty_runID_resolved [where execution = current_of_w1 and ev = env_flaky and ctx = "WithDeadline 5"
      and domainID = "''d1''" and ?s0.0 = "NewCache config0" and s = "NewCache config0"
      and callerScope = "OtherScope 7", THEN mp, OF h, THEN conjunct2, THEN conjunct1]
  have e: "GetOrCreateWorkflowExecution env_flaky (WithDeadline 5) ''d1'' current_of_w1 (OtherScope 7) (NewCache config0) =
       ((None, None, Some DeadlineExceeded),
        (NewCache config0)\<lparr>clock := 5, trace :=
          [IncCounter HistoryCacheGetOrCreateScope CacheRequests,
           StartTimer HistoryCacheGetOrCreateScope CacheLatency,
           IncCounter HistoryCacheGetCurrentExecutionScope CacheRequests,
           StartTimer HistoryCacheGetCurrentExecutionScope CacheLatency,
           GetCurrentExecutionEv ''d1'' ''w1'',
           SleepEv 5,
           IncCounter HistoryCacheGetCurrentExecutionScope CacheFailures,
           StopTimer HistoryCacheGetCurrentExecutionScope CacheLatency,
           IncCounter HistoryCacheGetOrCreateScope CacheFailures,
           StopTimer HistoryCacheGetOrCreateScope CacheLatency]\<rparr>)"
    using t3 by (simp add: scenario_defs Let_def)
  have a: "fst (GetOrCreateWorkflowExecution env_flaky Background ''d1'' current_of_w1 (OtherScope 7) (NewCache config0)) =
       fst (getOrCreateWorkflowExecutionInternal env_flaky Background ''d1'' \<lparr>WorkflowID = ''w1'', RunID = ''r9''\<rparr>
              HistoryCacheGetOrCreateScope False (OtherScope 7)
              (snd (getCurrentExecutionWithRetry env_flaky Background ''d1'' ''w1''
                 (emit (StartTimer HistoryCacheGetOrCreateScope CacheLatency)
                   (emit (IncCounter HistoryCacheGetOrCreateScope CacheRequests) (NewCache config0))))))"
    using t1 by (simp add: scenario_defs Let_def split: prod.splits)
  have b: "GetOrCreateWorkflowExecution env_missing Background ''d1'' current_of_w1 (OtherScope 7) (NewCache config0) =
       ((None, None, Some (PermanentStorage ''no current execution'')),
        (NewCache config0)\<lparr>trace :=
          [IncCounter HistoryCacheGetOrCreateScope CacheRequests,
           StartTimer HistoryCacheGetOrCreateScope CacheLatency,
           IncCounter HistoryCacheGetCurrentExecutionScope CacheRequests,
           StartTimer HistoryCacheGetCurrentExecutionScope CacheLatency,
           GetCurrentExecutionEv ''d1'' ''w1'',
           IncCounter HistoryCacheGetCurrentExecutionScope CacheFailures,
           StopTimer HistoryCacheGetCurrentExecutionScope CacheLatency,
           IncCounter HistoryCacheGetOrCreateScope CacheFailures,
           StopTimer HistoryCacheGetOrCreateScope CacheLatency]\<rparr>)"
    using t2 by (simp add: scenario_defs Let_def)
  have c: "keys_of (lruCache (snd (GetOrCreateWorkflowExecution env_flaky Background ''d1'' current_of_w1 (OtherScope 7) (NewCache config0)))) = [key9]"
    by (simp add: scenario_defs keys_of_def Let_def)
  have d: "length (filter (\<lambda>x. x = GetCurrentExecutionEv ''d1'' ''w1'')
        (trace (snd (GetOrCreateWorkflowExecution env_flaky Background ''d1'' current_of_w1 (OtherScope 7) (NewCache config0))))) = 2"
    by (simp add: scenario_defs Let_def)
  from h a b c d e show ?thesis by blast
qed

subsection \<open>The analysis operation\<close>

lemma values_remove_key: "set (map (\<lambda>p. entry_value (snd p)) (remove_key k xs)) \<subseteq> set (map (\<lambda>p. entry_value (snd p)) xs)"
  by (auto simp: remove_key_def)







lemmas scenario2_defs = scenario_defs released_def acquired_def analysis_hit_def analysis_miss_def
  refs_allocated_def values_of_def







subsection \<open>One Context for a key\<close>

lemma distinct_internal:
  assumes "getOrCreateWorkflowExecutionInternal ev ctx d ex scp force cs s = (res, s')"
    and "distinct (keys_of (lruCache s))"
  shows "distinct (keys_of (lruCache s'))"
  using assms
  by (auto simp: getOrCreateWorkflowExecutionInternal_def step_defs Let_def
                 distinct_Get distinct_Put distinct_Release
           split: prod.splits option.splits sum.splits if_splits)

lemma distinct_current:
  assumes "distinct (keys_of (lruCache s))"
  shows "distinct (keys_of (lruCache (snd (GetOrCreateCurrentWorkflowExecution ev ctx d w s))))"
  using assms
  by (auto simp: GetOrCreateCurrentWorkflowExecution_def Let_def split: prod.splits
           dest!: distinct_internal)

lemma distinct_getOrCreate:
  assumes "distinct (keys_of (lruCache s))"
  shows "distinct (keys_of (lruCache (snd (GetOrCreateWorkflowExecution ev ctx d ex cs s))))"
proof -
  let ?s1 = "emit (StartTimer HistoryCacheGetOrCreateScope CacheLatency)
               (emit (IncCounter HistoryCacheGetOrCreateScope CacheRequests) s)"
  obtain oe ex1 s2 where v: "validateWorkflowExecutionInfo ev ctx d ex ?s1 = ((oe, ex1), s2)"
    by (metis surj_pair)
  from validate_frame(1) [OF v] assms have d2: "distinct (keys_of (lruCache s2))"
    by simp
  show ?thesis
  proof (cases oe)
    case (Some err)
    with v d2 show ?thesis
      by (simp add: GetOrCreateWorkflowExecution_def Let_def)
  next
    case None
    obtain res s3 where i: "getOrCreateWorkflowExecutionInternal ev ctx d ex1
        HistoryCacheGetOrCreateScope False cs s2 = (res, s3)"
      by (metis surj_pair)
    from distinct_internal [OF i d2] v None i show ?thesis
      by (simp add: GetOrCreateWorkflowExecution_def Let_def)
  qed
qed

lemma distinct_getAndCreate:
  assumes "distinct (keys_of (lruCache s))"
  shows "distinct (keys_of (lruCache (snd (GetAndCreateWorkflowExecution ev ctx d ex s))))"
proof -
  let ?s1 = "emit (StartTimer HistoryCacheGetAndCreateScope CacheLatency)
               (emit (IncCounter HistoryCacheGetAndCreateScope CacheRequests) s)"
  obtain oe ex1 s2 where v: "validateWorkflowExecutionInfo ev ctx d ex ?s1 = ((oe, ex1), s2)"
    by (metis surj_pair)
  from validate_frame(1) [OF v] assms have "distinct (keys_of (lruCache s2))"
    by simp
  with v validate_frame(1) [OF v] show ?thesis
    by (auto simp: GetAndCreateWorkflowExecution_def step_defs Let_def distinct_Get distinct_Release
             split: prod.splits option.splits)
qed

lemma distinct_release:
  assumes "distinct (keys_of (lruCache s))"
  shows "distinct (keys_of (lruCache (snd (call_ReleaseFunc h err rec s))))"
  using assms
  by (cases h) (auto simp: Let_def distinct_Release split: option.splits)

lemma distinct_step:
  "distinct (keys_of (lruCache s)) \<Longrightarrow> distinct (keys_of (lruCache (step c s)))"
  by (cases c) (simp_all add: distinct_getOrCreate distinct_current distinct_getAndCreate distinct_release
        del: call_ReleaseFunc.simps)

lemma distinct_run:
  "distinct (keys_of (lruCache s)) \<Longrightarrow> distinct (keys_of (lruCache (run cs s)))"
  by (induction cs arbitrary: s) (simp_all add: distinct_step)

lemma Put_result:
  assumes "fst (lru_PutIfNotExist k v now m) = Inr c"
  shows "c = (case map_of (entries m) k of None \<Rightarrow> v | Some e \<Rightarrow> entry_value e)"
    and "\<exists>en. map_of (entries (snd (lru_PutIfNotExist k v now m))) k = Some en \<and> entry_value en = c"
  using assms
  by (auto simp: lru_PutIfNotExist_def Let_def map_of_touch split: option.splits if_splits)


lemma internal_miss:
  assumes "\<not> disabled s"
    and "fst (lru_Get (NewWorkflowIdentifier d (WorkflowID ex) (RunID ex)) (clock s) (lruCache s)) = None"
    and "getOrCreateWorkflowExecutionInternal ev ctx d ex scp force cs s = ((Some c, oh, None), s')"
  shows "contexts s' = contexts s @ [\<lparr>ctx_domainID = d, ctx_execution = ex\<rparr>]"
    and "\<exists>rest. new_events s s' =
           [GetEv (NewWorkflowIdentifier d (WorkflowID ex) (RunID ex)),
            IncCounter scp CacheMissCounter,
            NewContextEv (length (contexts s)) d ex,
            PutIfNotExistEv (NewWorkflowIdentifier d (WorkflowID ex) (RunID ex)) (length (contexts s))] @ rest"
    and "fst (lru_PutIfNotExist (NewWorkflowIdentifier d (WorkflowID ex) (RunID ex)) (length (contexts s)) (clock s)
            (snd (lru_Get (NewWorkflowIdentifier d (WorkflowID ex) (RunID ex)) (clock s) (lruCache s)))) = Inr c"
    and "lruCache s' =
           snd (lru_PutIfNotExist (NewWorkflowIdentifier d (WorkflowID ex) (RunID ex)) (length (contexts s)) (clock s)
            (snd (lru_Get (NewWorkflowIdentifier d (WorkflowID ex) (RunID ex)) (clock s) (lruCache s))))"
  using assms
  by (auto simp: getOrCreateWorkflowExecutionInternal_def step_defs new_events_def Let_def
           split: prod.splits option.splits sum.splits)

text \<open>
  Claim C3. For every sequence of facade acquisitions for a given Key, at most one Context
  exists in the map for that Key: on a map miss the facade constructs a fresh Context,
  inserts it with put-if-absent, and hands the caller the element returned by
  put-if-absent, which may be a pre-existing Context rather than the one it just
  constructed. First part: the keys of the map are distinct after every sequence of
  calls of the facade and of release handles, if they were before (they are in a new
  cache). Second part: an acquisition that misses in \<^verbatim>\<open>Get\<close> and succeeds has constructed
  one Context, has called \<^verbatim>\<open>PutIfNotExist\<close> with it, and returns the Context the map holds
  for the key afterwards: the one an entry of the key already held when \<^verbatim>\<open>PutIfNotExist\<close>
  ran, and the new one only if there was none. Calls do not interleave in the model; an
  entry that \<^verbatim>\<open>Get\<close> does not return and \<^verbatim>\<open>PutIfNotExist\<close> finds is one that is expired and
  still pinned.
\<close>

theorem one_context_per_key:
  "(distinct (keys_of (lruCache s0)) \<longrightarrow> distinct (keys_of (lruCache (run calls s0))))
   \<and> (\<not> disabled s
        \<and> fst (lru_Get (NewWorkflowIdentifier domainID (WorkflowID execution) (RunID execution))
                 (clock s) (lruCache s)) = None
        \<and> getOrCreateWorkflowExecutionInternal ev ctx domainID execution scp forceClearContext callerScope s =
            ((Some c, oh, None), s') \<longrightarrow>
          contexts s' = contexts s @ [\<lparr>ctx_domainID = domainID, ctx_execution = execution\<rparr>]
          \<and> (\<exists>rest. new_events s s' =
                [GetEv (NewWorkflowIdentifier domainID (WorkflowID execution) (RunID execution)),
                 IncCounter scp CacheMissCounter,
                 NewContextEv (length (contexts s)) domainID execution,
                 PutIfNotExistEv (NewWorkflowIdentifier domainID (WorkflowID execution) (RunID execution))
                   (length (contexts s))] @ rest)
          \<and> c = (case map_of (entries (snd (lru_Get (NewWorkflowIdentifier domainID (WorkflowID execution) (RunID execution))
                                               (clock s) (lruCache s))))
                          (NewWorkflowIdentifier domainID (WorkflowID execution) (RunID execution)) of
                    None \<Rightarrow> length (contexts s)
                  | Some en \<Rightarrow> entry_value en)
          \<and> (\<exists>en. map_of (entries (lruCache s'))
                        (NewWorkflowIdentifier domainID (WorkflowID execution) (RunID execution)) = Some en
                    \<and> entry_value en = c))"
proof (intro conjI impI; (elim conjE)?)
  assume "distinct (keys_of (lruCache s0))"
  then show "distinct (keys_of (lruCache (run calls s0)))"
    by (rule distinct_run)
next
  let ?key = "NewWorkflowIdentifier domainID (WorkflowID execution) (RunID execution)"
  assume a: "\<not> disabled s" "fst (lru_Get ?key (clock s) (lruCache s)) = None"
    "getOrCreateWorkflowExecutionInternal ev ctx domainID execution scp forceClearContext callerScope s =
            ((Some c, oh, None), s')"
  note m = internal_miss [OF a]
  show "contexts s' = contexts s @ [\<lparr>ctx_domainID = domainID, ctx_execution = execution\<rparr>]"
    by (rule m(1))
  show "\<exists>rest. new_events s s' =
                [GetEv ?key, IncCounter scp CacheMissCounter,
                 NewContextEv (length (contexts s)) domainID execution,
                 PutIfNotExistEv ?key (length (contexts s))] @ rest"
    by (rule m(2))
  show "c = (case map_of (entries (snd (lru_Get ?key (clock s) (lruCache s)))) ?key of
                    None \<Rightarrow> length (contexts s)
                  | Some en \<Rightarrow> entry_value en)"
    using Put_result(1) [OF m(3)] .
  show "\<exists>en. map_of (entries (lruCache s')) ?key = Some en \<and> entry_value en = c"
    using Put_result(2) [OF m(3)] m(4) by simp
qed

lemmas scenario3_defs = scenario2_defs stale_def second_acquire_def three_calls_def
  key_current_def keys_of_def

lemma stale_miss:
  "fst (lru_Get (NewWorkflowIdentifier ''d1'' ''w1'' ''r9'') (clock stale) (lruCache stale)) = None"
  by (simp add: scenario3_defs Let_def)

lemma second_acquire_eq:
  "getOrCreateWorkflowExecutionInternal env_ok Background ''d1''
       \<lparr>WorkflowID = ''w1'', RunID = ''r9''\<rparr> HistoryCacheGetOrCreateScope False (OtherScope 8) stale =
     ((Some 0, Some (ReleaseClosure key9 0 False (OtherScope 8) ''dom'' 5000 1), None), snd second_acquire)"
  by (simp add: scenario3_defs Let_def prod_eq_iff)

lemma second_acquire_contexts:
  "contexts (snd second_acquire) =
     [\<lparr>ctx_domainID = ''d1'', ctx_execution = \<lparr>WorkflowID = ''w1'', RunID = ''r9''\<rparr>\<rparr>,
      \<lparr>ctx_domainID = ''d1'', ctx_execution = \<lparr>WorkflowID = ''w1'', RunID = ''r9''\<rparr>\<rparr>]"
  by (simp add: scenario3_defs Let_def)

lemma second_acquire_cache:
  "lruCache (snd second_acquire) =
     \<lparr>entries = [(key9, \<lparr>entry_value = 0, pinCount = 2, insertedAt = 0\<rparr>)], maxCount = 2, ttl = 1000\<rparr>"
  by (simp add: scenario3_defs Let_def)

lemma three_calls_keys: "keys_of (lruCache (run three_calls (NewCache config0))) = [key_current, key9]"
  by (simp add: scenario3_defs Let_def)


theorem one_context_per_key_witness:
  "distinct (keys_of (lruCache (NewCache config0)))
   \<and> distinct (keys_of (lruCache (run three_calls (NewCache config0))))
   \<and> keys_of (lruCache (run three_calls (NewCache config0))) = [key_current, key9]
   \<and> \<not> disabled stale
   \<and> fst (lru_Get (NewWorkflowIdentifier ''d1'' ''w1'' ''r9'') (clock stale) (lruCache stale)) = None
   \<and> getOrCreateWorkflowExecutionInternal env_ok Background ''d1''
         \<lparr>WorkflowID = ''w1'', RunID = ''r9''\<rparr> HistoryCacheGetOrCreateScope False (OtherScope 8) stale =
       ((Some 0, Some (ReleaseClosure key9 0 False (OtherScope 8) ''dom'' 5000 1), None), snd second_acquire)
   \<and> length (contexts stale) = 1
   \<and> length (contexts (snd second_acquire)) = 2
   \<and> (\<exists>en. map_of (entries (lruCache (snd second_acquire))) (NewWorkflowIdentifier ''d1'' ''w1'' ''r9'') = Some en
             \<and> entry_value en = 0)"
proof -
  have d0: "distinct (keys_of (lruCache (NewCache config0)))"
    by (simp add: NewCache_def keys_of_def)
  have en: "\<not> disabled stale"
    by (simp add: scenario3_defs Let_def)
  have len: "length (contexts stale) = 1"
    by (simp add: scenario3_defs Let_def)
  note t = one_context_per_key [where ?s0.0 = "NewCache config0" and calls = three_calls
      and s = stale and domainID = "''d1''" and execution = "\<lparr>WorkflowID = ''w1'', RunID = ''r9''\<rparr>"
      and ev = env_ok and ctx = Background and scp = HistoryCacheGetOrCreateScope
      and forceClearContext = False and callerScope = "OtherScope 8" and c = 0
      and oh = "Some (ReleaseClosure key9 0 False (OtherScope 8) ''dom'' 5000 1)"
      and s' = "snd second_acquire"]
  from t d0 have a: "distinct (keys_of (lruCache (run three_calls (NewCache config0))))"
    by blast
  from t en stale_miss second_acquire_eq
  have b: "contexts (snd second_acquire) =
             contexts stale @ [\<lparr>ctx_domainID = ''d1'', ctx_execution = \<lparr>WorkflowID = ''w1'', RunID = ''r9''\<rparr>\<rparr>]
           \<and> (\<exists>en. map_of (entries (lruCache (snd second_acquire))) (NewWorkflowIdentifier ''d1'' ''w1'' ''r9'') = Some en
                 \<and> entry_value en = 0)"
    by simp
  from b len have l2: "length (contexts (snd second_acquire)) = 2"
    by simp
  from d0 a three_calls_keys en stale_miss second_acquire_eq len l2 b show ?thesis
    by blast
qed

subsection \<open>The run id of the keys\<close>

lemma internal_keys:
  assumes "getOrCreateWorkflowExecutionInternal ev ctx d ex scp force cs s = (res, s')"
  shows "set (keys_of (lruCache s')) \<subseteq>
           insert (NewWorkflowIdentifier d (WorkflowID ex) (RunID ex)) (set (keys_of (lruCache s)))"
    and "\<forall>k. GetEv k \<in> set (new_events s s') \<longrightarrow> k = NewWorkflowIdentifier d (WorkflowID ex) (RunID ex)"
    and "\<forall>dm w. GetCurrentExecutionEv dm w \<notin> set (new_events s s')"
proof -
  let ?key = "NewWorkflowIdentifier d (WorkflowID ex) (RunID ex)"
  have g: "set (keys_of (snd (lru_Get ?key (clock s) (lruCache s)))) \<subseteq> set (keys_of (lruCache s))"
    by (rule keys_Get)
  have p: "\<And>v now. set (keys_of (snd (lru_PutIfNotExist ?key v now (snd (lru_Get ?key (clock s) (lruCache s))))))
             \<subseteq> insert ?key (set (keys_of (lruCache s)))"
    using keys_Put g by blast
  have r: "\<And>now m. set (keys_of (lru_Release ?key now m)) \<subseteq> set (keys_of m)"
    by (rule keys_Release)
  show "set (keys_of (lruCache s')) \<subseteq> insert ?key (set (keys_of (lruCache s)))"
    using assms g p r
    by (auto simp: getOrCreateWorkflowExecutionInternal_def step_defs Let_def
             split: prod.splits option.splits sum.splits if_splits) blast+
  show "\<forall>k. GetEv k \<in> set (new_events s s') \<longrightarrow> k = ?key"
    using assms
    by (auto simp: getOrCreateWorkflowExecutionInternal_def step_defs new_events_def Let_def
             split: prod.splits option.splits sum.splits if_splits)
  show "\<forall>dm w. GetCurrentExecutionEv dm w \<notin> set (new_events s s')"
    using assms
    by (auto simp: getOrCreateWorkflowExecutionInternal_def step_defs new_events_def Let_def
             split: prod.splits option.splits sum.splits if_splits)
qed

lemma event_keys_iff:
  "k \<in> set (event_keys e) \<longleftrightarrow> e = GetEv k \<or> (\<exists>c. e = PutIfNotExistEv k c) \<or> e = ReleaseEv k"
  by (cases e) auto

lemma touched_iff:
  "k \<in> set (keys_touched s s') \<longleftrightarrow>
     GetEv k \<in> set (new_events s s') \<or> (\<exists>c. PutIfNotExistEv k c \<in> set (new_events s s'))
     \<or> ReleaseEv k \<in> set (new_events s s')
     \<or> (k \<in> set (keys_of (lruCache s')) \<and> k \<notin> set (keys_of (lruCache s)))"
  by (auto simp: keys_touched_def event_keys_iff)

lemma internal_events:
  assumes "getOrCreateWorkflowExecutionInternal ev ctx d ex scp force cs s = (res, s')"
  shows "\<forall>k c. PutIfNotExistEv k c \<in> set (new_events s s') \<longrightarrow> k = NewWorkflowIdentifier d (WorkflowID ex) (RunID ex)"
    and "\<forall>k. ReleaseEv k \<in> set (new_events s s') \<longrightarrow> k = NewWorkflowIdentifier d (WorkflowID ex) (RunID ex)"
    and "\<exists>xs. trace s' = trace s @ xs"
  using assms
  by (auto simp: getOrCreateWorkflowExecutionInternal_def step_defs new_events_def Let_def cache_Release_def
           split: prod.splits option.splits sum.splits if_splits)

lemma internal_touched:
  assumes "getOrCreateWorkflowExecutionInternal ev ctx d ex scp force cs s = (res, s')"
  shows "\<forall>k \<in> set (keys_touched s s'). k = NewWorkflowIdentifier d (WorkflowID ex) (RunID ex)"
proof
  fix k assume "k \<in> set (keys_touched s s')"
  then consider "GetEv k \<in> set (new_events s s')" | c where "PutIfNotExistEv k c \<in> set (new_events s s')"
    | "ReleaseEv k \<in> set (new_events s s')"
    | "k \<in> set (keys_of (lruCache s'))" "k \<notin> set (keys_of (lruCache s))"
    unfolding touched_iff by blast
  then show "k = NewWorkflowIdentifier d (WorkflowID ex) (RunID ex)"
  proof cases
    case 1 with internal_keys(2) [OF assms] show ?thesis by blast
  next
    case 2 with internal_events(1) [OF assms] show ?thesis by blast
  next
    case 3 with internal_events(2) [OF assms] show ?thesis by blast
  next
    case 4 with internal_keys(1) [OF assms] show ?thesis by blast
  qed
qed

lemma validate_events:
  assumes "validateWorkflowExecutionInfo ev ctx d ex s = ((oe, ex1), s1)"
  shows "\<exists>xs. trace s1 = trace s @ xs \<and> (\<forall>e \<in> set xs. event_keys e = [])"
proof -
  from validate_cases [OF assms] show ?thesis
  proof
    assume "s1 = s" then show ?thesis by simp
  next
    assume s1: "s1 = snd (getCurrentExecutionWithRetry ev ctx d (WorkflowID ex) s)"
    from resolve_trace_events [of ev ctx d "WorkflowID ex" s] obtain xs where
      xs: "trace s1 = trace s @ xs"
        "set xs \<subseteq> {IncCounter HistoryCacheGetCurrentExecutionScope CacheRequests,
                      StartTimer HistoryCacheGetCurrentExecutionScope CacheLatency,
                      IncCounter HistoryCacheGetCurrentExecutionScope CacheFailures,
                      StopTimer HistoryCacheGetCurrentExecutionScope CacheLatency,
                      GetCurrentExecutionEv d (WorkflowID ex)} \<union> range SleepEv"
      unfolding s1 by blast
    have "\<forall>e \<in> set xs. event_keys e = []"
      using xs(2) by auto
    with xs(1) show ?thesis by blast
  qed
qed

lemma getOrCreate_touched:
  assumes k: "k \<in> set (keys_touched s (snd (GetOrCreateWorkflowExecution ev ctx d ex cs s)))"
  shows "key_DomainID k = d \<and> key_WorkflowID k = WorkflowID ex
         \<and> (if RunID ex = []
            then fst (getCurrentExecutionWithRetry ev ctx d (WorkflowID ex)
                   (emit (StartTimer HistoryCacheGetOrCreateScope CacheLatency)
                      (emit (IncCounter HistoryCacheGetOrCreateScope CacheRequests) s))) = Inr (key_RunID k)
            else key_RunID k = RunID ex)"
proof -
  let ?s1 = "emit (StartTimer HistoryCacheGetOrCreateScope CacheLatency)
               (emit (IncCounter HistoryCacheGetOrCreateScope CacheRequests) s)"
  obtain oe ex1 s2 where v: "validateWorkflowExecutionInfo ev ctx d ex ?s1 = ((oe, ex1), s2)"
    by (metis surj_pair)
  note fr = validate_frame(1) [OF v]
  from validate_events [OF v] obtain xs where
    xs: "trace s2 = trace s @ IncCounter HistoryCacheGetOrCreateScope CacheRequests
                     # StartTimer HistoryCacheGetOrCreateScope CacheLatency # xs"
        "\<forall>e \<in> set xs. event_keys e = []"
    by auto
  obtain res s3 where i: "getOrCreateWorkflowExecutionInternal ev ctx d ex1
        HistoryCacheGetOrCreateScope False cs s2 = (res, s3)"
    by (metis surj_pair)
  from internal_events(3) [OF i] obtain ys where ys: "trace s3 = trace s2 @ ys"
    by blast
  show ?thesis
  proof (cases oe)
    case (Some err)
    with v fr xs k have False
      by (auto simp: GetOrCreateWorkflowExecution_def Let_def keys_touched_def new_events_def)
    then show ?thesis ..
  next
    case None
    have s': "snd (GetOrCreateWorkflowExecution ev ctx d ex cs s) =
                emit (StopTimer HistoryCacheGetOrCreateScope CacheLatency) s3"
      using v i None by (simp add: GetOrCreateWorkflowExecution_def Let_def)
    have "k \<in> set (keys_touched s2 s3)"
      using k xs ys fr unfolding s'
      by (auto simp: keys_touched_def new_events_def)
    with internal_touched [OF i] have kk: "k = NewWorkflowIdentifier d (WorkflowID ex1) (RunID ex1)"
      by blast
    from v None have v': "validateWorkflowExecutionInfo ev ctx d ex ?s1 = ((None, ex1), s2)"
      by simp
    from validate_ok [OF v'] kk show ?thesis
      by (auto simp: NewWorkflowIdentifier_def)
  qed
qed

lemma getAndCreate_touched:
  assumes k: "k \<in> set (keys_touched s (snd (GetAndCreateWorkflowExecution ev ctx d ex s)))"
  shows "key_DomainID k = d \<and> key_WorkflowID k = WorkflowID ex
         \<and> (if RunID ex = []
            then fst (getCurrentExecutionWithRetry ev ctx d (WorkflowID ex)
                   (emit (StartTimer HistoryCacheGetAndCreateScope CacheLatency)
                      (emit (IncCounter HistoryCacheGetAndCreateScope CacheRequests) s))) = Inr (key_RunID k)
            else key_RunID k = RunID ex)"
proof -
  let ?s1 = "emit (StartTimer HistoryCacheGetAndCreateScope CacheLatency)
               (emit (IncCounter HistoryCacheGetAndCreateScope CacheRequests) s)"
  obtain oe ex1 s2 where v: "validateWorkflowExecutionInfo ev ctx d ex ?s1 = ((oe, ex1), s2)"
    by (metis surj_pair)
  note fr = validate_frame(1) [OF v]
  from validate_events [OF v] obtain xs where
    xs: "trace s2 = trace s @ IncCounter HistoryCacheGetAndCreateScope CacheRequests
                     # StartTimer HistoryCacheGetAndCreateScope CacheLatency # xs"
        "\<forall>e \<in> set xs. event_keys e = []"
    by auto
  let ?key = "NewWorkflowIdentifier d (WorkflowID ex1) (RunID ex1)"
  have g: "set (keys_of (snd (lru_Get ?key (clock s2) (lruCache s)))) \<subseteq> set (keys_of (lruCache s))"
    by (rule keys_Get)
  have r: "\<And>now. set (keys_of (lru_Release ?key now (snd (lru_Get ?key (clock s2) (lruCache s)))))
              \<subseteq> set (keys_of (lruCache s))"
    using keys_Release g by blast
  show ?thesis
  proof (cases oe)
    case (Some err)
    with v fr xs k have False
      by (auto simp: GetAndCreateWorkflowExecution_def Let_def keys_touched_def new_events_def)
    then show ?thesis ..
  next
    case None
    have kk: "k = ?key"
      using k v xs fr g r None
      by (auto simp: GetAndCreateWorkflowExecution_def step_defs cache_Release_def keys_touched_def
                     new_events_def Let_def
               split: prod.splits option.splits)
    from v None have v': "validateWorkflowExecutionInfo ev ctx d ex ?s1 = ((None, ex1), s2)"
      by simp
    from validate_ok [OF v'] kk show ?thesis
      by (auto simp: NewWorkflowIdentifier_def)
  qed
qed

lemma getAndCreate_adds_no_key:
  "set (keys_of (lruCache (snd (GetAndCreateWorkflowExecution ev ctx d ex s)))) \<subseteq> set (keys_of (lruCache s))"
proof -
  let ?s1 = "emit (StartTimer HistoryCacheGetAndCreateScope CacheLatency)
               (emit (IncCounter HistoryCacheGetAndCreateScope CacheRequests) s)"
  obtain oe ex1 s2 where v: "validateWorkflowExecutionInfo ev ctx d ex ?s1 = ((oe, ex1), s2)"
    by (metis surj_pair)
  note fr = validate_frame(1) [OF v]
  let ?key = "NewWorkflowIdentifier d (WorkflowID ex1) (RunID ex1)"
  have g: "set (keys_of (snd (lru_Get ?key (clock s2) (lruCache s)))) \<subseteq> set (keys_of (lruCache s))"
    by (rule keys_Get)
  have r: "\<And>now. set (keys_of (lru_Release ?key now (snd (lru_Get ?key (clock s2) (lruCache s)))))
              \<subseteq> set (keys_of (lruCache s))"
    using keys_Release g by blast
  show ?thesis
    using v fr g r
    by (auto simp: GetAndCreateWorkflowExecution_def step_defs Let_def
             split: prod.splits option.splits)
qed

lemma current_touched:
  "\<forall>k \<in> set (keys_touched s (snd (GetOrCreateCurrentWorkflowExecution ev ctx d w s))).
      k = NewWorkflowIdentifier d w []"
proof -
  let ?s1 = "emit (StartTimer HistoryCacheGetOrCreateCurrentScope CacheLatency)
          (emit (IncCounter HistoryCacheGetOrCreateCurrentScope CacheRequests) s)"
  obtain res s2 where
    i: "getOrCreateWorkflowExecutionInternal ev ctx d \<lparr>WorkflowID = w, RunID = []\<rparr>
       HistoryCacheGetOrCreateCurrentScope True HistoryCacheGetOrCreateCurrentScope ?s1 = (res, s2)"
    by (metis surj_pair)
  from internal_events(3) [OF i] obtain ys where ys: "trace s2 = trace ?s1 @ ys"
    by blast
  have s': "snd (GetOrCreateCurrentWorkflowExecution ev ctx d w s) =
              emit (StopTimer HistoryCacheGetOrCreateCurrentScope CacheLatency) s2"
    using i by (simp add: GetOrCreateCurrentWorkflowExecution_def Let_def)
  have "set (keys_touched s (snd (GetOrCreateCurrentWorkflowExecution ev ctx d w s)))
          \<subseteq> set (keys_touched ?s1 s2)"
    using ys unfolding s'
    by (auto simp: keys_touched_def new_events_def)
  with internal_touched [OF i] show ?thesis
    by auto
qed

lemma current_no_storage:
  "\<forall>dm wf. GetCurrentExecutionEv dm wf
      \<notin> set (new_events s (snd (GetOrCreateCurrentWorkflowExecution ev ctx d w s)))"
proof -
  let ?s1 = "emit (StartTimer HistoryCacheGetOrCreateCurrentScope CacheLatency)
          (emit (IncCounter HistoryCacheGetOrCreateCurrentScope CacheRequests) s)"
  obtain res s2 where
    i: "getOrCreateWorkflowExecutionInternal ev ctx d \<lparr>WorkflowID = w, RunID = []\<rparr>
       HistoryCacheGetOrCreateCurrentScope True HistoryCacheGetOrCreateCurrentScope ?s1 = (res, s2)"
    by (metis surj_pair)
  from internal_events(3) [OF i] obtain ys where ys: "trace s2 = trace ?s1 @ ys"
    by blast
  have s': "snd (GetOrCreateCurrentWorkflowExecution ev ctx d w s) =
              emit (StopTimer HistoryCacheGetOrCreateCurrentScope CacheLatency) s2"
    using i by (simp add: GetOrCreateCurrentWorkflowExecution_def Let_def)
  from internal_keys(3) [OF i] ys show ?thesis
    unfolding s' by (auto simp: new_events_def)
qed

lemma Get_hit_entry:
  "fst (lru_Get k now m) = Some c \<Longrightarrow>
     \<exists>en. map_of (entries (snd (lru_Get k now m))) k = Some en \<and> entry_value en = c"
  by (auto simp: lru_Get_def map_of_touch split: option.splits if_splits)

lemma internal_success_entry:
  assumes "\<not> disabled s"
    and "getOrCreateWorkflowExecutionInternal ev ctx d ex scp force cs s = ((Some c, oh, None), s')"
  shows "\<exists>en. map_of (entries (lruCache s')) (NewWorkflowIdentifier d (WorkflowID ex) (RunID ex)) = Some en
              \<and> entry_value en = c"
proof (cases "fst (lru_Get (NewWorkflowIdentifier d (WorkflowID ex) (RunID ex)) (clock s) (lruCache s))")
  case None
  from internal_miss(3,4) [OF assms(1) None assms(2)] Put_result(2) show ?thesis
    by metis
next
  case (Some c')
  from Get_hit_entry [OF Some] assms Some show ?thesis
    by (auto simp: getOrCreateWorkflowExecutionInternal_def step_defs Let_def
             split: prod.splits option.splits sum.splits)
qed

lemma current_entry:
  assumes "\<not> disabled s"
    and "GetOrCreateCurrentWorkflowExecution ev ctx d w s = ((Some c, oh, None), s')"
  shows "\<exists>en. map_of (entries (lruCache s')) (NewWorkflowIdentifier d w []) = Some en \<and> entry_value en = c"
    and "\<forall>dm wf. GetCurrentExecutionEv dm wf \<notin> set (new_events s s')"
proof -
  let ?s1 = "emit (StartTimer HistoryCacheGetOrCreateCurrentScope CacheLatency)
          (emit (IncCounter HistoryCacheGetOrCreateCurrentScope CacheRequests) s)"
  from assms(2) obtain s2 where
    i: "getOrCreateWorkflowExecutionInternal ev ctx d \<lparr>WorkflowID = w, RunID = []\<rparr>
       HistoryCacheGetOrCreateCurrentScope True HistoryCacheGetOrCreateCurrentScope ?s1 = ((Some c, oh, None), s2)"
    and s': "s' = emit (StopTimer HistoryCacheGetOrCreateCurrentScope CacheLatency) s2"
    by (auto simp: GetOrCreateCurrentWorkflowExecution_def Let_def split: prod.splits)
  from internal_success_entry [OF _ i] assms(1) s'
  show "\<exists>en. map_of (entries (lruCache s')) (NewWorkflowIdentifier d w []) = Some en \<and> entry_value en = c"
    by simp
  have tr: "new_events s s' =
         IncCounter HistoryCacheGetOrCreateCurrentScope CacheRequests
           # StartTimer HistoryCacheGetOrCreateCurrentScope CacheLatency
           # new_events ?s1 s2 @ [StopTimer HistoryCacheGetOrCreateCurrentScope CacheLatency]"
    using i s'
    by (auto simp: getOrCreateWorkflowExecutionInternal_def step_defs new_events_def Let_def
             split: prod.splits option.splits sum.splits if_splits)
  from internal_keys(3) [OF i] tr
  show "\<forall>dm wf. GetCurrentExecutionEv dm wf \<notin> set (new_events s s')"
    by simp
qed

lemmas scenario4_defs = scenario3_defs acquired_current_def key_current_def handle_current_def
  run_a_def key_a_def acquired_second_def analysis_a_def current_second_def handle_current_second_def

lemma acquired_second_touched:
  "keys_touched (snd acquired_current) (snd acquired_second) = [key9, key9, key9]"
  by (simp add: scenario4_defs keys_touched_def new_events_def keys_of_def Let_def)

lemma acquired_second_keys: "keys_of (lruCache (snd acquired_second)) = [key9, key_current]"
  by (simp add: scenario4_defs keys_of_def Let_def)

lemma analysis_a_touched: "keys_touched (snd acquired) (snd analysis_a) = [key_a]"
  by (simp add: scenario4_defs keys_touched_def new_events_def keys_of_def Let_def)

lemma analysis_a_keys: "keys_of (lruCache (snd analysis_a)) = [key9]"
  by (simp add: scenario4_defs keys_of_def Let_def)

lemma current_second_touched:
  "keys_touched (snd acquired) (snd current_second) = [key_current, key_current, key_current]"
  by (simp add: scenario4_defs keys_touched_def new_events_def keys_of_def Let_def)

lemma current_second_result: "fst current_second = (Some 1, Some handle_current_second, None)"
  by (simp add: scenario4_defs Let_def)

lemma acquired_enabled: "\<not> disabled (snd acquired)"
  by (simp add: scenario4_defs Let_def)


text \<open>
  Claim C1 says that every operation of the facade that produces a cached entry,
  \<^verbatim>\<open>GetOrCreateCurrentWorkflowExecution\<close> with its implicit empty run id included, resolves
  the empty run id to a concrete run id before the map lookup, so that every Key stored
  in the map has a run id that is not empty. The code does otherwise for the current
  run: \<^verbatim>\<open>GetOrCreateCurrentWorkflowExecution\<close> passes the empty run id to
  \<^verbatim>\<open>getOrCreateWorkflowExecutionInternal\<close> ("using empty run ID as current workflow run
  ID") without calling \<^verbatim>\<open>validateWorkflowExecutionInfo\<close>. On a new cache, the call for
  workflow \<^verbatim>\<open>w1\<close> of domain \<^verbatim>\<open>d1\<close> succeeds, storage is never asked, and the one key of the
  map afterwards has the empty run id.
\<close>

theorem current_run_key_has_empty_runID:
  "fst (GetOrCreateCurrentWorkflowExecution env_ok Background ''d1'' ''w1'' (NewCache config0)) =
     (Some 0, Some handle_current, None)
   \<and> keys_of (lruCache (snd (GetOrCreateCurrentWorkflowExecution env_ok Background ''d1'' ''w1'' (NewCache config0)))) =
       [\<lparr>key_DomainID = ''d1'', key_WorkflowID = ''w1'', key_RunID = []\<rparr>]
   \<and> GetCurrentExecutionEv ''d1'' ''w1''
       \<notin> set (trace (snd (GetOrCreateCurrentWorkflowExecution env_ok Background ''d1'' ''w1'' (NewCache config0))))"
  by (simp add: scenario3_defs handle_current_def Let_def)

text \<open>
  Claim C1, as amended. \<^verbatim>\<open>GetOrCreateWorkflowExecution\<close> and
  \<^verbatim>\<open>GetAndCreateWorkflowExecution\<close> resolve an empty run id before they turn to the map:
  every key they hand to the map (to look it up, to put an entry under it, to release
  its pin) and every key their call adds to the map is the key of the caller's domain
  and workflow with the caller's run id when that is not empty, and with the run id
  that the resolver returned for the workflow otherwise; \<^verbatim>\<open>GetAndCreateWorkflowExecution\<close>
  adds no key to the map. \<^verbatim>\<open>GetOrCreateCurrentWorkflowExecution\<close> does not resolve: in
  every call it asks storage nothing, and every key it hands to the map or adds to it
  is the key of the domain and the workflow with the empty run id; when it succeeds (the
  cache not in the bypass mode of the test hook) the map holds the returned Context under
  that key. Nothing is assumed of the keys the map holds before the call.
\<close>

theorem keys_runID_of_caller_or_storage:
  "(\<forall>k \<in> set (keys_touched s (snd (GetOrCreateWorkflowExecution ev ctx domainID execution callerScope s))).
       key_DomainID k = domainID \<and> key_WorkflowID k = WorkflowID execution
       \<and> (if RunID execution = []
           then fst (getCurrentExecutionWithRetry ev ctx domainID (WorkflowID execution)
                  (emit (StartTimer HistoryCacheGetOrCreateScope CacheLatency)
                     (emit (IncCounter HistoryCacheGetOrCreateScope CacheRequests) s))) = Inr (key_RunID k)
                \<and> (\<exists>j\<le>retry_maxRetries ev.
                       GetCurrentExecution ev ctx j domainID (WorkflowID execution) = Inr (key_RunID k))
           else key_RunID k = RunID execution))
   \<and> (\<forall>k \<in> set (keys_touched s (snd (GetAndCreateWorkflowExecution ev ctx domainID execution s))).
       key_DomainID k = domainID \<and> key_WorkflowID k = WorkflowID execution
       \<and> (if RunID execution = []
           then fst (getCurrentExecutionWithRetry ev ctx domainID (WorkflowID execution)
                  (emit (StartTimer HistoryCacheGetAndCreateScope CacheLatency)
                     (emit (IncCounter HistoryCacheGetAndCreateScope CacheRequests) s))) = Inr (key_RunID k)
                \<and> (\<exists>j\<le>retry_maxRetries ev.
                       GetCurrentExecution ev ctx j domainID (WorkflowID execution) = Inr (key_RunID k))
           else key_RunID k = RunID execution))
   \<and> set (keys_of (lruCache (snd (GetAndCreateWorkflowExecution ev ctx domainID execution s))))
        \<subseteq> set (keys_of (lruCache s))
   \<and> (\<forall>k \<in> set (keys_touched s (snd (GetOrCreateCurrentWorkflowExecution ev ctx domainID workflowID s))).
        k = NewWorkflowIdentifier domainID workflowID [])
   \<and> (\<forall>dm wf. GetCurrentExecutionEv dm wf
         \<notin> set (new_events s (snd (GetOrCreateCurrentWorkflowExecution ev ctx domainID workflowID s))))
   \<and> (\<not> disabled s
        \<and> GetOrCreateCurrentWorkflowExecution ev ctx domainID workflowID s = ((Some c, oh, None), s') \<longrightarrow>
          (\<exists>en. map_of (entries (lruCache s')) (NewWorkflowIdentifier domainID workflowID []) = Some en
                \<and> entry_value en = c))"
proof (intro conjI ballI impI; (elim conjE)?)
  fix k assume "k \<in> set (keys_touched s (snd (GetOrCreateWorkflowExecution ev ctx domainID execution callerScope s)))"
  note g = getOrCreate_touched [OF this]
  from g show "key_DomainID k = domainID"
    by blast
  from g show "key_WorkflowID k = WorkflowID execution"
    by blast
  show "if RunID execution = []
         then fst (getCurrentExecutionWithRetry ev ctx domainID (WorkflowID execution)
                (emit (StartTimer HistoryCacheGetOrCreateScope CacheLatency)
                   (emit (IncCounter HistoryCacheGetOrCreateScope CacheRequests) s))) = Inr (key_RunID k)
              \<and> (\<exists>j\<le>retry_maxRetries ev.
                     GetCurrentExecution ev ctx j domainID (WorkflowID execution) = Inr (key_RunID k))
         else key_RunID k = RunID execution"
  proof (cases "RunID execution = []")
    case True
    with g have r: "fst (getCurrentExecutionWithRetry ev ctx domainID (WorkflowID execution)
                 (emit (StartTimer HistoryCacheGetOrCreateScope CacheLatency)
                    (emit (IncCounter HistoryCacheGetOrCreateScope CacheRequests) s))) = Inr (key_RunID k)"
      by simp
    from r resolve_Inr [OF r] True show ?thesis
      by simp
  next
    case False
    with g show ?thesis
      by simp
  qed
next
  fix k assume "k \<in> set (keys_touched s (snd (GetAndCreateWorkflowExecution ev ctx domainID execution s)))"
  note g = getAndCreate_touched [OF this]
  from g show "key_DomainID k = domainID"
    by blast
  from g show "key_WorkflowID k = WorkflowID execution"
    by blast
  show "if RunID execution = []
         then fst (getCurrentExecutionWithRetry ev ctx domainID (WorkflowID execution)
                (emit (StartTimer HistoryCacheGetAndCreateScope CacheLatency)
                   (emit (IncCounter HistoryCacheGetAndCreateScope CacheRequests) s))) = Inr (key_RunID k)
              \<and> (\<exists>j\<le>retry_maxRetries ev.
                     GetCurrentExecution ev ctx j domainID (WorkflowID execution) = Inr (key_RunID k))
         else key_RunID k = RunID execution"
  proof (cases "RunID execution = []")
    case True
    with g have r: "fst (getCurrentExecutionWithRetry ev ctx domainID (WorkflowID execution)
                 (emit (StartTimer HistoryCacheGetAndCreateScope CacheLatency)
                    (emit (IncCounter HistoryCacheGetAndCreateScope CacheRequests) s))) = Inr (key_RunID k)"
      by simp
    from r resolve_Inr [OF r] True show ?thesis
      by simp
  next
    case False
    with g show ?thesis
      by simp
  qed
next
  show "set (keys_of (lruCache (snd (GetAndCreateWorkflowExecution ev ctx domainID execution s))))
        \<subseteq> set (keys_of (lruCache s))"
    by (rule getAndCreate_adds_no_key)
next
  fix k assume "k \<in> set (keys_touched s (snd (GetOrCreateCurrentWorkflowExecution ev ctx domainID workflowID s)))"
  with current_touched show "k = NewWorkflowIdentifier domainID workflowID []"
    by blast
next
  show "\<forall>dm wf. GetCurrentExecutionEv dm wf
         \<notin> set (new_events s (snd (GetOrCreateCurrentWorkflowExecution ev ctx domainID workflowID s)))"
    by (rule current_no_storage)
next
  assume a: "\<not> disabled s"
    "GetOrCreateCurrentWorkflowExecution ev ctx domainID workflowID s = ((Some c, oh, None), s')"
  show "\<exists>en. map_of (entries (lruCache s')) (NewWorkflowIdentifier domainID workflowID []) = Some en
                \<and> entry_value en = c"
    using a by (rule current_entry(1))
qed

theorem keys_runID_of_caller_or_storage_witness:
  "keys_of (lruCache (snd acquired_current)) = [key_current]
   \<and> keys_touched (snd acquired_current) (snd acquired_second) = [key9, key9, key9]
   \<and> keys_of (lruCache (snd acquired_second)) = [key9, key_current]
   \<and> RunID current_of_w1 = []
   \<and> fst (getCurrentExecutionWithRetry env_ok Background ''d1'' ''w1''
            (emit (StartTimer HistoryCacheGetOrCreateScope CacheLatency)
               (emit (IncCounter HistoryCacheGetOrCreateScope CacheRequests) (snd acquired_current)))) = Inr ''r9''
   \<and> keys_of (lruCache (snd acquired)) = [key9]
   \<and> keys_touched (snd acquired) (snd analysis_a) = [key_a]
   \<and> key_RunID key_a = run_a
   \<and> keys_of (lruCache (snd analysis_a)) = [key9]
   \<and> keys_touched (snd acquired) (snd current_second) = [key_current, key_current, key_current]
   \<and> key_current = NewWorkflowIdentifier ''d1'' ''w1'' []
   \<and> GetCurrentExecutionEv ''d1'' ''w1'' \<notin> set (new_events (snd acquired) (snd current_second))
   \<and> \<not> disabled (snd acquired)
   \<and> fst current_second = (Some 1, Some handle_current_second, None)
   \<and> map_of (entries (lruCache (snd current_second))) key_current =
        Some \<lparr>entry_value = 1, pinCount = 1, insertedAt = 0\<rparr>"
proof -
  note t1 = keys_runID_of_caller_or_storage [where s = "snd acquired_current" and ev = env_ok
      and ctx = Background and domainID = "''d1''" and execution = current_of_w1
      and callerScope = "OtherScope 7", THEN conjunct1, THEN bspec, of key9]
  note t2 = keys_runID_of_caller_or_storage [where s = "snd acquired" and ev = env_ok
      and ctx = Background and domainID = "''d1''"
      and execution = "\<lparr>WorkflowID = ''w1'', RunID = run_a\<rparr>",
      THEN conjunct2, THEN conjunct1, THEN bspec, of key_a]
  note t3 = keys_runID_of_caller_or_storage [where s = "snd acquired" and ev = env_ok
      and ctx = Background and domainID = "''d1''" and workflowID = "''w1''" and c = 1
      and oh = "Some handle_current_second" and s' = "snd current_second",
      THEN conjunct2, THEN conjunct2, THEN conjunct2]
  have k0: "keys_of (lruCache (snd acquired_current)) = [key_current]"
    by (simp add: acquired_current_cache keys_of_def)
  have k1: "keys_of (lruCache (snd acquired)) = [key9]"
    by (simp add: acquired_cache keys_of_def)
  have r: "RunID current_of_w1 = []" "WorkflowID current_of_w1 = ''w1''"
    by (simp_all add: current_of_w1_def)
  from t1 acquired_second_touched r
  have a: "fst (getCurrentExecutionWithRetry env_ok Background ''d1'' ''w1''
            (emit (StartTimer HistoryCacheGetOrCreateScope CacheLatency)
               (emit (IncCounter HistoryCacheGetOrCreateScope CacheRequests) (snd acquired_current)))) = Inr ''r9''"
    by (simp add: acquired_second_def key9_def)
  from t2 analysis_a_touched have b: "key_RunID key_a = run_a"
    by (simp add: analysis_a_def run_a_def)
  from t3 [THEN conjunct1, THEN bspec, of key_current] current_second_touched
  have kc: "key_current = NewWorkflowIdentifier ''d1'' ''w1'' []"
    by (simp add: current_second_def)
  from t3 [THEN conjunct2, THEN conjunct1]
  have c: "GetCurrentExecutionEv ''d1'' ''w1'' \<notin> set (new_events (snd acquired) (snd current_second))"
    by (simp add: current_second_def)
  have eq: "GetOrCreateCurrentWorkflowExecution env_ok Background ''d1'' ''w1'' (snd acquired) =
              ((Some 1, Some handle_current_second, None), snd current_second)"
    using current_second_result by (simp add: current_second_def prod_eq_iff)
  from t3 [THEN conjunct2, THEN conjunct2] acquired_enabled eq
  obtain en where en: "map_of (entries (lruCache (snd current_second))) key_current = Some en"
      "entry_value en = 1"
    unfolding kc by blast
  have m: "map_of (entries (lruCache (snd current_second))) key_current =
        Some \<lparr>entry_value = 1, pinCount = 1, insertedAt = 0\<rparr>"
    by (simp add: scenario4_defs Let_def)
  from k0 acquired_second_touched acquired_second_keys r(1) a k1 analysis_a_touched b analysis_a_keys
    current_second_touched kc c acquired_enabled current_second_result m en
  show ?thesis
    by simp
qed

end
